theory Spec2Isabelle
  imports Main "HOL-Library.Word"
begin

text \<open>
  A model of \<open>script.js\<close>, the validation script of a job application form: the page
  is a record of its controls, error nodes, submit control, status line, file preview,
  the script's \<open>isDirty\<close> variable and the pending timeouts; each validator and each
  listener is a function on that record.
\<close>

section \<open>JavaScript strings\<close>

text \<open>
  A JavaScript string is a sequence of UTF-16 code units, and \<open>.length\<close> counts code
  units. String literals of the script are written \<open>js ''...''\<close>; the two characters of
  the script outside ASCII (the dash of the size message and the check mark of the
  success message) are given by their code units.
\<close>

type_synonym cu = "16 word"
type_synonym jsstring = "cu list"

definition js :: "string \<Rightarrow> jsstring" where
  "js = map of_char"

text \<open>
  \<open>WhiteSpace\<close> and \<open>LineTerminator\<close> of ECMAScript: the code points that
  \<open>String.prototype.trim\<close> strips and that the class escape \<open>\s\<close> matches.
\<close>

definition isWhiteSpace :: "cu \<Rightarrow> bool" where
  "isWhiteSpace c \<longleftrightarrow>
     c = 0x0009 \<or> c = 0x000B \<or> c = 0x000C \<or> c = 0x0020 \<or> c = 0x00A0 \<or> c = 0xFEFF \<or>
     c = 0x1680 \<or> (0x2000 \<le> c \<and> c \<le> 0x200A) \<or> c = 0x202F \<or> c = 0x205F \<or> c = 0x3000"

definition isLineTerminator :: "cu \<Rightarrow> bool" where
  "isLineTerminator c \<longleftrightarrow> c = 0x000A \<or> c = 0x000D \<or> c = 0x2028 \<or> c = 0x2029"

definition isSpace :: "cu \<Rightarrow> bool" where
  "isSpace c \<longleftrightarrow> isWhiteSpace c \<or> isLineTerminator c"

definition trim :: "jsstring \<Rightarrow> jsstring" where
  "trim s = rev (dropWhile isSpace (rev (dropWhile isSpace s)))"

text \<open>
  \<open>toLowerCase\<close> on the letters A to Z; every other code unit is kept as it is. The
  platform also lower-cases letters outside ASCII, to code units outside ASCII, so a
  comparison of the result with a word of ASCII letters without \<open>i\<close> and \<open>k\<close> comes out
  the same.
\<close>

definition lower_cu :: "cu \<Rightarrow> cu" where
  "lower_cu c = (if 0x41 \<le> c \<and> c \<le> 0x5A then c + 0x20 else c)"

definition toLowerCase :: "jsstring \<Rightarrow> jsstring" where
  "toLowerCase = map lower_cu"

text \<open>\<open>s.split(sep)\<close> for a separator of one code unit: never an empty array.\<close>

fun js_split :: "cu \<Rightarrow> jsstring \<Rightarrow> jsstring list" where
  "js_split sep [] = [[]]"
| "js_split sep (c # cs) =
     (if c = sep then [] # js_split sep cs
      else (case js_split sep cs of
              [] \<Rightarrow> [[c]]
            | p # ps \<Rightarrow> (c # p) # ps))"

text \<open>
  Number to string for a non-negative integer, and \<open>x.toFixed(1)\<close> for a quotient
  \<open>x = num / den\<close>: the integer \<open>n\<close> nearest to \<open>10 * x\<close>, the larger one on a tie,
  printed with its last digit after the point. A division of a file size by a power
  of two is exact in binary floating point, so the rounding is that of the exact
  quotient.
\<close>

fun digits :: "nat \<Rightarrow> jsstring" where
  "digits n = (if n < 10 then [of_nat (48 + n)]
               else digits (n div 10) @ [of_nat (48 + n mod 10)])"

declare digits.simps [simp del]

definition toFixed1 :: "nat \<Rightarrow> nat \<Rightarrow> jsstring" where
  "toFixed1 num den =
     (let n = (20 * num + den) div (2 * den)
      in digits (n div 10) @ js ''.'' @ digits (n mod 10))"

section \<open>Regular expression matching\<close>

text \<open>
  The matchers of the ECMAScript pattern semantics, in continuation-passing style: a
  matcher takes the match state (the end index and the input from there on) and a
  continuation, and says whether the rest of the pattern can succeed. Backtracking is
  the disjunction in \<open>plus_set\<close>: a greedy \<open>+\<close> on a character set first tries one more
  code unit and then the continuation.
\<close>

type_synonym mstate = "nat \<times> jsstring"
type_synonym cont = "mstate \<Rightarrow> bool"
type_synonym matcher = "mstate \<Rightarrow> cont \<Rightarrow> bool"

definition CharSet :: "(cu \<Rightarrow> bool) \<Rightarrow> matcher" where
  "CharSet A x c =
     (case snd x of
        [] \<Rightarrow> False
      | ch # rest \<Rightarrow> if A ch then c (Suc (fst x), rest) else False)"

fun plus_set :: "(cu \<Rightarrow> bool) \<Rightarrow> nat \<Rightarrow> jsstring \<Rightarrow> cont \<Rightarrow> bool" where
  "plus_set A e [] c = False"
| "plus_set A e (ch # rest) c =
     (A ch \<and> (plus_set A (Suc e) rest c \<or> c (Suc e, rest)))"

definition PlusSet :: "(cu \<Rightarrow> bool) \<Rightarrow> matcher" where
  "PlusSet A x c = plus_set A (fst x) (snd x) c"

definition AssertStart :: matcher where
  "AssertStart x c = (if fst x = 0 then c x else False)"

definition AssertEnd :: matcher where
  "AssertEnd x c = (if snd x = [] then c x else False)"

definition Seq :: "matcher \<Rightarrow> matcher \<Rightarrow> matcher" where
  "Seq m1 m2 x c = m1 x (\<lambda>y. m2 y c)"

text \<open>
  \<open>re.test(s)\<close> for a pattern without the global and sticky flags: the match is tried
  at index 0, then at each later index up to the length of the input.
\<close>

fun test_from :: "matcher \<Rightarrow> nat \<Rightarrow> jsstring \<Rightarrow> bool" where
  "test_from m i [] = m (i, []) (\<lambda>y. True)"
| "test_from m i (ch # rest) = (m (i, ch # rest) (\<lambda>y. True) \<or> test_from m (Suc i) rest)"

definition test :: "matcher \<Rightarrow> jsstring \<Rightarrow> bool" where
  "test m s = test_from m 0 s"

section \<open>The page\<close>

record node =
  textContent :: jsstring
  hidden :: bool

record control =
  value' :: jsstring
  defaultValue :: jsstring

record jsfile =
  file_name :: jsstring
  file_size :: nat
  file_type :: jsstring

record button =
  disabled :: bool
  label :: jsstring

record status =
  status_text :: jsstring
  color :: jsstring

datatype callback = SubmitDone

record state =
  fullName :: control
  email :: control
  cover :: control
  portfolio :: control
  resume :: "jsfile list"
  errName :: node
  errEmail :: node
  errCover :: node
  errResume :: node
  errPortfolio :: node
  filePreview :: node
  submitBtn :: button
  formStatus :: status
  isDirty :: bool
  timers :: "(nat \<times> callback) list"

text \<open>The result of \<open>new URL(v)\<close>: only the \<open>protocol\<close> is read.\<close>

record url =
  protocol :: jsstring

section \<open>Config and helpers\<close>

definition MAX_FILE_BYTES :: nat where
  "MAX_FILE_BYTES = 2 * 1024 * 1024"

definition ALLOWED_MIME :: "jsstring list" where
  "ALLOWED_MIME =
     [js ''application/pdf'',
      js ''application/msword'',
      js ''application/vnd.openxmlformats-officedocument.wordprocessingml.document'']"

definition ALLOWED_EXT :: "jsstring list" where
  "ALLOWED_EXT = [js ''pdf'', js ''doc'', js ''docx'']"

definition showError :: "node \<Rightarrow> jsstring \<Rightarrow> node" where
  "showError n msg = n\<lparr>textContent := msg, hidden := False\<rparr>"

definition clearError :: "node \<Rightarrow> node" where
  "clearError n = n\<lparr>textContent := [], hidden := True\<rparr>"

definition prettyBytes :: "nat \<Rightarrow> jsstring" where
  "prettyBytes bytes =
     (if bytes < 1024 then digits bytes @ js '' B''
      else if bytes < 1024 * 1024 then toFixed1 bytes 1024 @ js '' KB''
      else toFixed1 bytes (1024 * 1024) @ js '' MB'')"

definition getExt :: "jsstring \<Rightarrow> jsstring" where
  "getExt filename =
     (let parts = js_split 0x2E filename
      in if length parts > 1 then toLowerCase (last parts) else [])"

section \<open>Messages\<close>

definition msg_name_required :: jsstring where
  "msg_name_required = js ''Full name is required.''"

definition msg_name_short :: jsstring where
  "msg_name_short = js ''Please enter your full name.''"

definition msg_email_required :: jsstring where
  "msg_email_required = js ''Email is required.''"

definition msg_email_invalid :: jsstring where
  "msg_email_invalid = js ''Please enter a valid email address.''"

definition msg_cover_short :: jsstring where
  "msg_cover_short = js ''If provided, cover letter should be at least 20 characters.''"

definition msg_portfolio_scheme :: jsstring where
  "msg_portfolio_scheme = js ''Portfolio URL must use http or https.''"

definition msg_portfolio_invalid :: jsstring where
  "msg_portfolio_invalid = js ''Please enter a valid URL for your portfolio.''"

definition msg_resume_required :: jsstring where
  "msg_resume_required = js ''Resume is required. Attach a PDF or Word document.''"

definition msg_resume_large :: jsstring where
  "msg_resume_large =
     js ''File is too large '' @ [0x2014] @ js '' max is '' @ prettyBytes MAX_FILE_BYTES @ js ''.''"

definition msg_resume_type :: jsstring where
  "msg_resume_type = js ''Invalid file type. Allowed: .pdf, .doc, .docx''"

definition msg_fix_errors :: jsstring where
  "msg_fix_errors = js ''Please fix the highlighted errors.''"

definition msg_success :: jsstring where
  "msg_success = js ''Application submitted successfully '' @ [0x2705]"

section \<open>Field validators\<close>

text \<open>
  Each validator reads its control, writes its error node and returns its boolean
  result together with the page after it.
\<close>

definition validateName :: "state \<Rightarrow> bool \<times> state" where
  "validateName s =
     (let v = trim (value' (fullName s))
      in if v = [] then (False, s\<lparr>errName := showError (errName s) msg_name_required\<rparr>)
         else if length v < 2 then (False, s\<lparr>errName := showError (errName s) msg_name_short\<rparr>)
         else (True, s\<lparr>errName := clearError (errName s)\<rparr>))"

text \<open>The pattern \<open>/^[^\s@]+@[^\s@]+\.[^\s@]+$/\<close>.\<close>

definition notSpaceAt :: "cu \<Rightarrow> bool" where
  "notSpaceAt c \<longleftrightarrow> \<not> (isSpace c \<or> c = 0x40)"

definition email_re :: matcher where
  "email_re =
     Seq AssertStart
    (Seq (PlusSet notSpaceAt)
    (Seq (CharSet (\<lambda>c. c = 0x40))
    (Seq (PlusSet notSpaceAt)
    (Seq (CharSet (\<lambda>c. c = 0x2E))
    (Seq (PlusSet notSpaceAt)
         AssertEnd)))))"

definition validateEmail :: "state \<Rightarrow> bool \<times> state" where
  "validateEmail s =
     (let v = trim (value' (email s))
      in if v = [] then (False, s\<lparr>errEmail := showError (errEmail s) msg_email_required\<rparr>)
         else if \<not> test email_re v
              then (False, s\<lparr>errEmail := showError (errEmail s) msg_email_invalid\<rparr>)
         else (True, s\<lparr>errEmail := clearError (errEmail s)\<rparr>))"

definition validateCover :: "state \<Rightarrow> bool \<times> state" where
  "validateCover s =
     (let v = trim (value' (cover s))
      in if v = [] then (True, s\<lparr>errCover := clearError (errCover s)\<rparr>)
         else if length v < 20 then (False, s\<lparr>errCover := showError (errCover s) msg_cover_short\<rparr>)
         else (True, s\<lparr>errCover := clearError (errCover s)\<rparr>))"

text \<open>
  \<open>new URL(v)\<close> is the platform's parser and not part of the script: it is the
  parameter \<open>URL\<close>, \<open>None\<close> where the constructor throws.
\<close>

definition validatePortfolio :: "(jsstring \<Rightarrow> url option) \<Rightarrow> state \<Rightarrow> bool \<times> state" where
  "validatePortfolio URL s =
     (let v = trim (value' (portfolio s))
      in if v = [] then (True, s\<lparr>errPortfolio := clearError (errPortfolio s)\<rparr>)
         else (case URL v of
                 None \<Rightarrow> (False, s\<lparr>errPortfolio := showError (errPortfolio s) msg_portfolio_invalid\<rparr>)
               | Some u \<Rightarrow>
                   if protocol u \<notin> set [js ''http:'', js ''https:'']
                   then (False, s\<lparr>errPortfolio := showError (errPortfolio s) msg_portfolio_scheme\<rparr>)
                   else (True, s\<lparr>errPortfolio := clearError (errPortfolio s)\<rparr>)))"

definition validateResume :: "state \<Rightarrow> bool \<times> state" where
  "validateResume s0 =
     (let s = s0\<lparr>errResume := clearError (errResume s0)\<rparr>
      in case resume s of
           [] \<Rightarrow> (False, s\<lparr>errResume := showError (errResume s) msg_resume_required,
                          filePreview := (filePreview s)\<lparr>hidden := True\<rparr>\<rparr>)
         | f # others \<Rightarrow>
             if file_size f > MAX_FILE_BYTES
             then (False, s\<lparr>errResume := showError (errResume s) msg_resume_large,
                            filePreview := (filePreview s)\<lparr>hidden := True\<rparr>\<rparr>)
             else
               let mime = file_type f;
                   ext = getExt (file_name f);
                   allowed = False;
                   allowed = (if mime \<in> set ALLOWED_MIME then True else allowed);
                   allowed = (if ext \<in> set ALLOWED_EXT then True else allowed)
               in if \<not> allowed
                  then (False, s\<lparr>errResume := showError (errResume s) msg_resume_type,
                                 filePreview := (filePreview s)\<lparr>hidden := True\<rparr>\<rparr>)
                  else (True,
                        s\<lparr>filePreview :=
                             (filePreview s)\<lparr>hidden := False,
                               textContent := js ''Selected: '' @ file_name f @ js '' ('' @
                                              prettyBytes (file_size f) @ js '')''\<rparr>,
                          errResume := clearError (errResume s)\<rparr>))"

section \<open>Event listeners\<close>

text \<open>
  The event object of a listener: \<open>preventDefault()\<close> sets \<open>defaultPrevented\<close>.
\<close>

record event =
  defaultPrevented :: bool

definition onClearFile :: "state \<Rightarrow> state" where
  "onClearFile s =
     s\<lparr>resume := [],
       filePreview := (filePreview s)\<lparr>hidden := True\<rparr>,
       errResume := clearError (errResume s)\<rparr>"

text \<open>
  \<open>form.reset()\<close> gives every text control its default value and empties the file
  selection. It dispatches no \<open>input\<close> event.
\<close>

definition form_reset :: "state \<Rightarrow> state" where
  "form_reset s =
     s\<lparr>fullName := (fullName s)\<lparr>value' := defaultValue (fullName s)\<rparr>,
       email := (email s)\<lparr>value' := defaultValue (email s)\<rparr>,
       cover := (cover s)\<lparr>value' := defaultValue (cover s)\<rparr>,
       portfolio := (portfolio s)\<lparr>value' := defaultValue (portfolio s)\<rparr>,
       resume := []\<rparr>"

text \<open>The callback given to \<open>setTimeout\<close>.\<close>

fun run_callback :: "callback \<Rightarrow> state \<Rightarrow> state" where
  "run_callback SubmitDone s0 =
     (let s = s0\<lparr>submitBtn := (submitBtn s0)\<lparr>disabled := False\<rparr>\<rparr>;
          s = s\<lparr>submitBtn := (submitBtn s)\<lparr>label := js ''Submit application''\<rparr>\<rparr>;
          s = s\<lparr>formStatus := (formStatus s)\<lparr>status_text := msg_success\<rparr>\<rparr>;
          s = s\<lparr>formStatus := (formStatus s)\<lparr>color := js ''var(--success)''\<rparr>\<rparr>;
          s = form_reset s
      in s\<lparr>filePreview := (filePreview s)\<lparr>hidden := True\<rparr>\<rparr>)"

definition onSubmit :: "(jsstring \<Rightarrow> url option) \<Rightarrow> event \<Rightarrow> state \<Rightarrow> event \<times> state" where
  "onSubmit URL e0 s0 =
     (let e = e0\<lparr>defaultPrevented := True\<rparr>;
          s = s0\<lparr>formStatus := (formStatus s0)\<lparr>status_text := []\<rparr>\<rparr>;
          s = s\<lparr>submitBtn := (submitBtn s)\<lparr>disabled := True\<rparr>\<rparr>;
          s = s\<lparr>submitBtn := (submitBtn s)\<lparr>label := js ''Checking...''\<rparr>\<rparr>;
          (okName, s) = validateName s;
          (okEmail, s) = validateEmail s;
          (okCover, s) = validateCover s;
          (okPortfolio, s) = validatePortfolio URL s;
          (okResume, s) = validateResume s;
          allOk = (okName \<and> okEmail \<and> okCover \<and> okPortfolio \<and> okResume)
      in if \<not> allOk
         then (let s = s\<lparr>submitBtn := (submitBtn s)\<lparr>disabled := False\<rparr>\<rparr>;
                   s = s\<lparr>submitBtn := (submitBtn s)\<lparr>label := js ''Submit application''\<rparr>\<rparr>;
                   s = s\<lparr>formStatus := (formStatus s)\<lparr>status_text := msg_fix_errors\<rparr>\<rparr>;
                   s = s\<lparr>formStatus := (formStatus s)\<lparr>color := js ''var(--danger)''\<rparr>\<rparr>
               in (e, s))
         else (e, s\<lparr>timers := timers s @ [(800, SubmitDone)]\<rparr>))"

definition onBeforeUnload :: "event \<Rightarrow> state \<Rightarrow> event" where
  "onBeforeUnload ev s = (if isDirty s then ev\<lparr>defaultPrevented := True\<rparr> else ev)"

text \<open>
  The script's top level: \<open>isDirty\<close> starts false and no timeout is pending. The
  argument is the page as the document gives it.
\<close>

definition load :: "state \<Rightarrow> state" where
  "load page = page\<lparr>isDirty := False, timers := []\<rparr>"

section \<open>The page as a state machine\<close>

text \<open>
  What can happen in the page. Editing a text control sets its value and dispatches
  \<open>input\<close> at the control, whose own listener runs before the form's; choosing files
  dispatches \<open>input\<close> and then \<open>change\<close> at the file control; \<open>OtherInput\<close> is an
  \<open>input\<close> event from any other control of the form. \<open>TimerFires\<close> runs the oldest
  pending timeout.
\<close>

datatype field = FullName | Email | Cover | Portfolio

datatype action =
    Edit field jsstring
  | ChooseFiles "jsfile list"
  | OtherInput
  | ClickClear
  | Submit
  | BeforeUnload
  | TimerFires

fun is_input :: "action \<Rightarrow> bool" where
  "is_input (Edit f v) = True"
| "is_input (ChooseFiles fs) = True"
| "is_input OtherInput = True"
| "is_input a = False"

fun step :: "(jsstring \<Rightarrow> url option) \<Rightarrow> state \<Rightarrow> action \<Rightarrow> state" where
  "step URL s (Edit FullName v) =
     (snd (validateName (s\<lparr>fullName := (fullName s)\<lparr>value' := v\<rparr>\<rparr>)))\<lparr>isDirty := True\<rparr>"
| "step URL s (Edit Email v) =
     (snd (validateEmail (s\<lparr>email := (email s)\<lparr>value' := v\<rparr>\<rparr>)))\<lparr>isDirty := True\<rparr>"
| "step URL s (Edit Cover v) =
     (snd (validateCover (s\<lparr>cover := (cover s)\<lparr>value' := v\<rparr>\<rparr>)))\<lparr>isDirty := True\<rparr>"
| "step URL s (Edit Portfolio v) =
     (snd (validatePortfolio URL (s\<lparr>portfolio := (portfolio s)\<lparr>value' := v\<rparr>\<rparr>)))\<lparr>isDirty := True\<rparr>"
| "step URL s (ChooseFiles fs) = snd (validateResume (s\<lparr>resume := fs, isDirty := True\<rparr>))"
| "step URL s OtherInput = s\<lparr>isDirty := True\<rparr>"
| "step URL s ClickClear = onClearFile s"
| "step URL s Submit = snd (onSubmit URL \<lparr>defaultPrevented = False\<rparr> s)"
| "step URL s BeforeUnload = s"
| "step URL s TimerFires =
     (case timers s of
        [] \<Rightarrow> s
      | (delay, cb) # pending \<Rightarrow> run_callback cb (s\<lparr>timers := pending\<rparr>))"

section \<open>The specification's wording\<close>

text \<open>
  The structural pattern of an email address as the specification words it: one or
  more code units that are neither white space nor \<open>@\<close>, a literal \<open>@\<close>, one or more
  such code units, a literal \<open>.\<close>, and one or more such code units.
\<close>

definition email_pattern :: "jsstring \<Rightarrow> bool" where
  "email_pattern v \<longleftrightarrow>
     (\<exists>a b c. v = a @ [0x40] @ b @ [0x2E] @ c \<and> a \<noteq> [] \<and> b \<noteq> [] \<and> c \<noteq> [] \<and>
              (\<forall>x\<in>set (a @ b @ c). \<not> isSpace x \<and> x \<noteq> 0x40))"

text \<open>
  The extension of a file name as the specification words it: the substring after the
  last \<open>.\<close>, compared without regard to case with \<open>pdf\<close>, \<open>doc\<close> and \<open>docx\<close>.
\<close>

definition extension_allowed :: "jsstring \<Rightarrow> bool" where
  "extension_allowed filename \<longleftrightarrow>
     (\<exists>stem e. filename = stem @ [0x2E] @ e \<and> 0x2E \<notin> set e \<and>
               toLowerCase e \<in> {js ''pdf'', js ''doc'', js ''docx''})"

section \<open>Sample pages\<close>

text \<open>
  A page with every control empty, for the concrete instances below, and a simple
  stand-in for the platform's URL parser at those instances: it reads a scheme, a
  letter followed by letters, digits, \<open>+\<close>, \<open>-\<close> or \<open>.\<close> up to the first \<open>:\<close>, and
  accepts whatever follows.
\<close>

definition blank_node :: node where
  "blank_node = \<lparr>textContent = [], hidden = True\<rparr>"

definition blank_control :: control where
  "blank_control = \<lparr>value' = [], defaultValue = []\<rparr>"

definition blank_page :: state where
  "blank_page =
     \<lparr>fullName = blank_control, email = blank_control, cover = blank_control,
      portfolio = blank_control, resume = [],
      errName = blank_node, errEmail = blank_node, errCover = blank_node,
      errResume = blank_node, errPortfolio = blank_node, filePreview = blank_node,
      submitBtn = \<lparr>disabled = False, label = js ''Submit application''\<rparr>,
      formStatus = \<lparr>status_text = [], color = []\<rparr>,
      isDirty = False, timers = []\<rparr>"

definition typed :: "jsstring \<Rightarrow> control" where
  "typed v = \<lparr>value' = v, defaultValue = []\<rparr>"

definition filled_page :: state where
  "filled_page =
     blank_page\<lparr>fullName := typed (js ''Ada Lovelace''),
                email := typed (js ''ada@example.org''),
                cover := typed (js ''I would like to apply.''),
                portfolio := typed (js ''https://example.com''),
                resume := [\<lparr>file_name = js ''cv.pdf'', file_size = 1000,
                            file_type = js ''application/pdf''\<rparr>]\<rparr>"

definition isAlpha :: "cu \<Rightarrow> bool" where
  "isAlpha c \<longleftrightarrow> (0x41 \<le> c \<and> c \<le> 0x5A) \<or> (0x61 \<le> c \<and> c \<le> 0x7A)"

definition isSchemeChar :: "cu \<Rightarrow> bool" where
  "isSchemeChar c \<longleftrightarrow>
     isAlpha c \<or> (0x30 \<le> c \<and> c \<le> 0x39) \<or> c = 0x2B \<or> c = 0x2D \<or> c = 0x2E"

fun scheme_of :: "jsstring \<Rightarrow> jsstring option" where
  "scheme_of [] = None"
| "scheme_of (c # cs) =
     (if c = 0x3A then Some [0x3A]
      else if isSchemeChar c then map_option (\<lambda>r. lower_cu c # r) (scheme_of cs)
      else None)"

definition sample_URL :: "jsstring \<Rightarrow> url option" where
  "sample_URL v =
     (case v of
        [] \<Rightarrow> None
      | c # cs \<Rightarrow> if isAlpha c then map_option (\<lambda>p. \<lparr>protocol = p\<rparr>) (scheme_of v) else None)"

section \<open>The validators by control\<close>

text \<open>
  What a validator returns and writes depends on its own control only (and, for the
  resume, on the preview node). The names below stand for these results, read off the
  validator itself on the blank page; they let the listeners be unfolded without
  unfolding the validators.
\<close>

definition name_ok :: "control \<Rightarrow> bool" where
  "name_ok c = fst (validateName (blank_page\<lparr>fullName := c\<rparr>))"

definition name_err :: "control \<Rightarrow> node" where
  "name_err c = errName (snd (validateName (blank_page\<lparr>fullName := c\<rparr>)))"

definition email_ok :: "control \<Rightarrow> bool" where
  "email_ok c = fst (validateEmail (blank_page\<lparr>email := c\<rparr>))"

definition email_err :: "control \<Rightarrow> node" where
  "email_err c = errEmail (snd (validateEmail (blank_page\<lparr>email := c\<rparr>)))"

definition cover_ok :: "control \<Rightarrow> bool" where
  "cover_ok c = fst (validateCover (blank_page\<lparr>cover := c\<rparr>))"

definition cover_err :: "control \<Rightarrow> node" where
  "cover_err c = errCover (snd (validateCover (blank_page\<lparr>cover := c\<rparr>)))"

definition portfolio_ok :: "(jsstring \<Rightarrow> url option) \<Rightarrow> control \<Rightarrow> bool" where
  "portfolio_ok URL c = fst (validatePortfolio URL (blank_page\<lparr>portfolio := c\<rparr>))"

definition portfolio_err :: "(jsstring \<Rightarrow> url option) \<Rightarrow> control \<Rightarrow> node" where
  "portfolio_err URL c = errPortfolio (snd (validatePortfolio URL (blank_page\<lparr>portfolio := c\<rparr>)))"

definition resume_ok :: "jsfile list \<Rightarrow> bool" where
  "resume_ok fs = fst (validateResume (blank_page\<lparr>resume := fs\<rparr>))"

definition resume_err :: "jsfile list \<Rightarrow> node" where
  "resume_err fs = errResume (snd (validateResume (blank_page\<lparr>resume := fs\<rparr>)))"

definition resume_preview :: "jsfile list \<Rightarrow> node \<Rightarrow> node" where
  "resume_preview fs p =
     filePreview (snd (validateResume (blank_page\<lparr>resume := fs, filePreview := p\<rparr>)))"

section \<open>Runs of the page\<close>

text \<open>
  A disabled submit control submits nothing: \<open>submit_when_enabled\<close> says of a sequence
  of events, started in a state, that each \<open>Submit\<close> among them comes when the control
  is enabled. \<open>pending_ok\<close> is the state of the timeouts on such runs: none pending, or
  the one completion, with the control disabled and labelled \<open>Checking...\<close>.
\<close>

fun submit_when_enabled :: "(jsstring \<Rightarrow> url option) \<Rightarrow> state \<Rightarrow> action list \<Rightarrow> bool" where
  "submit_when_enabled URL s [] = True"
| "submit_when_enabled URL s (a # as) =
     ((a = Submit \<longrightarrow> \<not> disabled (submitBtn s)) \<and> submit_when_enabled URL (step URL s a) as)"

definition pending_ok :: "state \<Rightarrow> bool" where
  "pending_ok s \<longleftrightarrow>
     timers s = [] \<or>
     (timers s = [(800, SubmitDone)] \<and> disabled (submitBtn s) \<and>
      label (submitBtn s) = js ''Checking...'')"

section \<open>Facts about strings\<close>

lemma trim_decomp: "\<exists>a b. s = a @ trim s @ b \<and> (\<forall>c\<in>set a. isSpace c) \<and> (\<forall>c\<in>set b. isSpace c)"
proof -
  let ?t = "dropWhile isSpace s"
  let ?b = "rev (takeWhile isSpace (rev ?t))"
  have "trim s @ ?b = rev (takeWhile isSpace (rev ?t) @ dropWhile isSpace (rev ?t))"
    by (simp only: trim_def rev_append)
  also have "\<dots> = ?t"
    by (simp only: takeWhile_dropWhile_id rev_rev_ident)
  finally have "takeWhile isSpace s @ trim s @ ?b = s"
    by (simp only: takeWhile_dropWhile_id)
  moreover have "\<forall>c\<in>set (takeWhile isSpace s). isSpace c"
    by (meson set_takeWhileD)
  moreover have "\<forall>c\<in>set ?b. isSpace c"
    using set_takeWhileD by fastforce
  ultimately show ?thesis by metis
qed

lemma trim_no_space:
  assumes "\<forall>c\<in>set s. \<not> isSpace c"
  shows "trim s = s"
proof -
  have *: "dropWhile isSpace xs = xs" if "\<forall>c\<in>set xs. \<not> isSpace c" for xs
    using that by (cases xs) auto
  have "dropWhile isSpace s = s" using assms by (rule *)
  moreover have "dropWhile isSpace (rev s) = rev s" using assms by (intro *) simp
  ultimately show ?thesis by (simp add: trim_def)
qed

lemma trim_Nil: "trim [] = []"
  by (simp add: trim_def)

lemma isSpace_at: "\<not> isSpace 0x40" "\<not> isSpace 0x2E"
  by (simp_all add: isSpace_def isWhiteSpace_def isLineTerminator_def)

lemmas space_defs = isSpace_def isWhiteSpace_def isLineTerminator_def
lemmas re_defs = test_def email_re_def Seq_def AssertStart_def AssertEnd_def PlusSet_def CharSet_def notSpaceAt_def

section \<open>The email pattern and the regular expression\<close>

lemma CharSet_iff:
  "CharSet A (e, s) c \<longleftrightarrow> (\<exists>ch rest. s = ch # rest \<and> A ch \<and> c (Suc e, rest))"
  by (cases s) (auto simp: CharSet_def)

lemma plus_set_iff:
  "plus_set A e s c \<longleftrightarrow>
     (\<exists>w r. s = w @ r \<and> w \<noteq> [] \<and> (\<forall>ch\<in>set w. A ch) \<and> c (e + length w, r))"
proof (induction s arbitrary: e)
  case Nil
  then show ?case by simp
next
  case (Cons x xs)
  show ?case
  proof
    assume "plus_set A e (x # xs) c"
    then have ax: "A x" and d: "plus_set A (Suc e) xs c \<or> c (Suc e, xs)" by auto
    from d show "\<exists>w r. x # xs = w @ r \<and> w \<noteq> [] \<and> (\<forall>ch\<in>set w. A ch) \<and> c (e + length w, r)"
    proof
      assume "plus_set A (Suc e) xs c"
      then obtain w r where "xs = w @ r" "w \<noteq> []" "\<forall>ch\<in>set w. A ch" "c (Suc e + length w, r)"
        using Cons.IH by blast
      then have "x # xs = (x # w) @ r \<and> x # w \<noteq> [] \<and> (\<forall>ch\<in>set (x # w). A ch) \<and>
                 c (e + length (x # w), r)"
        using ax by simp
      then show ?thesis by blast
    next
      assume "c (Suc e, xs)"
      then have "x # xs = [x] @ xs \<and> [x] \<noteq> [] \<and> (\<forall>ch\<in>set [x]. A ch) \<and> c (e + length [x], xs)"
        using ax by simp
      then show ?thesis by blast
    qed
  next
    assume "\<exists>w r. x # xs = w @ r \<and> w \<noteq> [] \<and> (\<forall>ch\<in>set w. A ch) \<and> c (e + length w, r)"
    then obtain w r where w: "x # xs = w @ r" "w \<noteq> []" "\<forall>ch\<in>set w. A ch" "c (e + length w, r)"
      by blast
    then obtain w' where w': "w = x # w'" "xs = w' @ r"
      by (cases w) auto
    have ax: "A x" using w w' by simp
    show "plus_set A e (x # xs) c"
    proof (cases "w' = []")
      case True
      then show ?thesis using ax w w' by simp
    next
      case False
      then have "plus_set A (Suc e) xs c"
        using Cons.IH [of "Suc e"] w w' by auto
      then show ?thesis using ax by simp
    qed
  qed
qed

lemma PlusSet_iff:
  "PlusSet A (e, s) c \<longleftrightarrow>
     (\<exists>w r. s = w @ r \<and> w \<noteq> [] \<and> (\<forall>ch\<in>set w. A ch) \<and> c (e + length w, r))"
  by (simp add: PlusSet_def plus_set_iff)

lemma email_re_unfold:
  "email_re (0, v) (\<lambda>y. True) \<longleftrightarrow>
     PlusSet notSpaceAt (0, v) (\<lambda>y. CharSet (\<lambda>c. c = 0x40) y
       (\<lambda>y. PlusSet notSpaceAt y (\<lambda>y. CharSet (\<lambda>c. c = 0x2E) y
         (\<lambda>y. PlusSet notSpaceAt y (\<lambda>y. snd y = [])))))"
  by (simp add: email_re_def Seq_def AssertStart_def AssertEnd_def)

lemma email_re_start: "email_re (0, v) (\<lambda>y. True) \<longleftrightarrow> email_pattern v"
proof
  assume "email_re (0, v) (\<lambda>y. True)"
  then have "PlusSet notSpaceAt (0, v) (\<lambda>y. CharSet (\<lambda>c. c = 0x40) y
       (\<lambda>y. PlusSet notSpaceAt y (\<lambda>y. CharSet (\<lambda>c. c = 0x2E) y
         (\<lambda>y. PlusSet notSpaceAt y (\<lambda>y. snd y = [])))))"
    by (simp only: email_re_unfold)
  then obtain a r1 where a: "v = a @ r1" "a \<noteq> []" "\<forall>x\<in>set a. notSpaceAt x"
    and 1: "CharSet (\<lambda>c. c = 0x40) (0 + length a, r1)
       (\<lambda>y. PlusSet notSpaceAt y (\<lambda>y. CharSet (\<lambda>c. c = 0x2E) y
         (\<lambda>y. PlusSet notSpaceAt y (\<lambda>y. snd y = []))))"
    unfolding PlusSet_iff by blast
  from 1 obtain r2 where r1: "r1 = 0x40 # r2"
    and 2: "PlusSet notSpaceAt (Suc (0 + length a), r2) (\<lambda>y. CharSet (\<lambda>c. c = 0x2E) y
         (\<lambda>y. PlusSet notSpaceAt y (\<lambda>y. snd y = [])))"
    unfolding CharSet_iff by blast
  from 2 obtain b r3 where b: "r2 = b @ r3" "b \<noteq> []" "\<forall>x\<in>set b. notSpaceAt x"
    and 3: "CharSet (\<lambda>c. c = 0x2E) (Suc (0 + length a) + length b, r3)
         (\<lambda>y. PlusSet notSpaceAt y (\<lambda>y. snd y = []))"
    unfolding PlusSet_iff by blast
  from 3 obtain r4 where r3: "r3 = 0x2E # r4"
    and 4: "PlusSet notSpaceAt (Suc (Suc (0 + length a) + length b), r4) (\<lambda>y. snd y = [])"
    unfolding CharSet_iff by blast
  from 4 obtain c r5 where c: "r4 = c @ r5" "c \<noteq> []" "\<forall>x\<in>set c. notSpaceAt x" "r5 = []"
    unfolding PlusSet_iff by auto
  have "v = a @ [0x40] @ b @ [0x2E] @ c"
    using a r1 b r3 c by simp
  moreover have "\<forall>x\<in>set (a @ b @ c). \<not> isSpace x \<and> x \<noteq> 0x40"
    using a b c by (auto simp: notSpaceAt_def)
  ultimately show "email_pattern v"
    unfolding email_pattern_def using a b c by blast
next
  assume "email_pattern v"
  then obtain a b c where v: "v = a @ [0x40] @ b @ [0x2E] @ c"
    and ne: "a \<noteq> []" "b \<noteq> []" "c \<noteq> []"
    and ok: "\<forall>x\<in>set a. notSpaceAt x" "\<forall>x\<in>set b. notSpaceAt x" "\<forall>x\<in>set c. notSpaceAt x"
    unfolding email_pattern_def notSpaceAt_def by auto
  have 4: "PlusSet notSpaceAt (n, c) (\<lambda>y. snd y = [])" for n
    unfolding PlusSet_iff using ne ok by (intro exI [of _ c] exI [of _ "[]"]) simp
  have 3: "CharSet (\<lambda>c. c = 0x2E) (n, 0x2E # c) (\<lambda>y. PlusSet notSpaceAt y (\<lambda>y. snd y = []))" for n
    unfolding CharSet_iff using 4 by simp
  have 2: "PlusSet notSpaceAt (n, b @ 0x2E # c) (\<lambda>y. CharSet (\<lambda>c. c = 0x2E) y
         (\<lambda>y. PlusSet notSpaceAt y (\<lambda>y. snd y = [])))" for n
    unfolding PlusSet_iff using ne ok 3 by (intro exI [of _ b] exI [of _ "0x2E # c"]) simp
  have 1: "CharSet (\<lambda>c. c = 0x40) (n, 0x40 # b @ 0x2E # c)
       (\<lambda>y. PlusSet notSpaceAt y (\<lambda>y. CharSet (\<lambda>c. c = 0x2E) y
         (\<lambda>y. PlusSet notSpaceAt y (\<lambda>y. snd y = []))))" for n
    unfolding CharSet_iff using 2 by simp
  have "PlusSet notSpaceAt (0, a @ 0x40 # b @ 0x2E # c) (\<lambda>y. CharSet (\<lambda>c. c = 0x40) y
       (\<lambda>y. PlusSet notSpaceAt y (\<lambda>y. CharSet (\<lambda>c. c = 0x2E) y
         (\<lambda>y. PlusSet notSpaceAt y (\<lambda>y. snd y = [])))))"
    unfolding PlusSet_iff using ne ok 1 by (intro exI [of _ a] exI [of _ "0x40 # b @ 0x2E # c"]) simp
  then show "email_re (0, v) (\<lambda>y. True)"
    by (simp add: email_re_unfold v)
qed

lemma email_re_later: "email_re (Suc i, s) c = False"
  by (simp add: email_re_def Seq_def AssertStart_def)

lemma test_from_later: "test_from email_re (Suc i) s = False"
  by (induction s arbitrary: i) (simp_all add: email_re_later)

lemma test_email_re: "test email_re v \<longleftrightarrow> email_pattern v"
  by (cases v) (simp_all add: test_def email_re_start test_from_later email_re_later)

section \<open>The name validator\<close>

text \<open>
  C6. For every value of the name control: when the trimmed value is empty the
  validator returns false and shows the Required message; when the trimmed value has
  length 1 it returns false and shows the TooShort message; when the trimmed value has
  length 2 or more it returns true and clears the error. Nothing else of the page
  changes.
\<close>

theorem validateName_cases:
  "(trim (value' (fullName s)) = [] \<longrightarrow>
      validateName s = (False, s\<lparr>errName := \<lparr>textContent = msg_name_required, hidden = False\<rparr>\<rparr>)) \<and>
   (length (trim (value' (fullName s))) = 1 \<longrightarrow>
      validateName s = (False, s\<lparr>errName := \<lparr>textContent = msg_name_short, hidden = False\<rparr>\<rparr>)) \<and>
   (length (trim (value' (fullName s))) \<ge> 2 \<longrightarrow>
      validateName s = (True, s\<lparr>errName := \<lparr>textContent = [], hidden = True\<rparr>\<rparr>))"
  by (auto simp: validateName_def Let_def showError_def clearError_def)

theorem validateName_cases_witness:
  "validateName (blank_page\<lparr>fullName := typed (js ''   '')\<rparr>) =
     (False, blank_page\<lparr>fullName := typed (js ''   ''),
                        errName := \<lparr>textContent = msg_name_required, hidden = False\<rparr>\<rparr>) \<and>
   validateName (blank_page\<lparr>fullName := typed (js '' A '')\<rparr>) =
     (False, blank_page\<lparr>fullName := typed (js '' A ''),
                        errName := \<lparr>textContent = msg_name_short, hidden = False\<rparr>\<rparr>) \<and>
   validateName (blank_page\<lparr>fullName := typed (js ''Al'')\<rparr>) =
     (True, blank_page\<lparr>fullName := typed (js ''Al''),
                        errName := \<lparr>textContent = [], hidden = True\<rparr>\<rparr>)"
proof -
  have e1: "trim (js ''   '') = []"
    by (simp add: trim_def js_def space_defs)
  have e2: "length (trim (js '' A '')) = 1"
    by (simp add: trim_def js_def space_defs)
  have e3: "length (trim (js ''Al'')) \<ge> 2"
    by (simp add: trim_def js_def space_defs)
  show ?thesis
    using validateName_cases [of "blank_page\<lparr>fullName := typed (js ''   '')\<rparr>"]
      validateName_cases [of "blank_page\<lparr>fullName := typed (js '' A '')\<rparr>"]
      validateName_cases [of "blank_page\<lparr>fullName := typed (js ''Al'')\<rparr>"]
      e1 e2 e3
    by (simp add: typed_def)
qed

section \<open>The email validator\<close>

lemma email_pattern_no_space: "email_pattern v \<Longrightarrow> \<forall>c\<in>set v. \<not> isSpace c"
  unfolding email_pattern_def using isSpace_at by auto

lemma email_pattern_nonempty: "email_pattern v \<Longrightarrow> v \<noteq> []"
  unfolding email_pattern_def by auto

lemma unique_split:
  assumes "p @ [x] @ q = u @ [x] @ w" "x \<notin> set u" "x \<notin> set w"
  shows "q = w"
proof -
  from assms(1) have "p @ x # q = u @ x # w" by simp
  then obtain us where "p = u @ us \<and> us @ x # q = x # w \<or> p @ us = u \<and> x # q = us @ x # w"
    unfolding append_eq_append_conv2 by blast
  then show ?thesis
  proof
    assume h: "p = u @ us \<and> us @ x # q = x # w"
    show ?thesis
    proof (cases us)
      case Nil
      then show ?thesis using h by simp
    next
      case (Cons y ys)
      then have "w = ys @ x # q" using h by simp
      then show ?thesis using assms(3) by simp
    qed
  next
    assume h: "p @ us = u \<and> x # q = us @ x # w"
    show ?thesis
    proof (cases us)
      case Nil
      then show ?thesis using h by simp
    next
      case (Cons y ys)
      then have "y = x" using h by simp
      then have "x \<in> set u" using h Cons by auto
      then show ?thesis using assms(2) by simp
    qed
  qed
qed

lemma email_pattern_trim_raw:
  assumes "email_pattern (trim v)"
  shows "\<exists>u w. v = u @ [0x40] @ w \<and> 0x40 \<notin> set u \<and> 0x40 \<notin> set w \<and> 0x2E \<in> set w"
proof -
  obtain a b c where t: "trim v = a @ [0x40] @ b @ [0x2E] @ c"
    and ok: "\<forall>x\<in>set (a @ b @ c). \<not> isSpace x \<and> x \<noteq> 0x40"
    using assms unfolding email_pattern_def by blast
  obtain pre post where v: "v = pre @ trim v @ post"
    and sp: "\<forall>c\<in>set pre. isSpace c" "\<forall>c\<in>set post. isSpace c"
    using trim_decomp by blast
  have "v = (pre @ a) @ [0x40] @ (b @ [0x2E] @ c @ post)"
    using v t by simp
  moreover have "0x40 \<notin> set (pre @ a)" using sp ok isSpace_at by auto
  moreover have "0x40 \<notin> set (b @ [0x2E] @ c @ post)" using sp ok isSpace_at by auto
  moreover have "0x2E \<in> set (b @ [0x2E] @ c @ post)" by simp
  ultimately show ?thesis by blast
qed

lemma validateEmail_fst: "fst (validateEmail s) \<longleftrightarrow> email_pattern (trim (value' (email s)))"
  using email_pattern_nonempty [of "trim (value' (email s))"]
  by (auto simp: validateEmail_def Let_def test_email_re)

text \<open>
  C5. For every value of the email control: when the trimmed value is empty the
  validator returns false and shows the Required message; when the trimmed value is
  not empty and does not match the structural pattern (one or more code units that
  are neither white space nor \<open>@\<close>, an \<open>@\<close>, one or more such code units, a \<open>.\<close>, one
  or more such code units) it returns false and shows the InvalidFormat message;
  otherwise it returns true and clears the error. In particular a value that itself
  matches the pattern succeeds, a value without \<open>@\<close> fails, and a value with an \<open>@\<close>
  that has no \<open>.\<close> after it fails.
\<close>

theorem validateEmail_cases:
  "(trim (value' (email s)) = [] \<longrightarrow>
      validateEmail s = (False, s\<lparr>errEmail := \<lparr>textContent = msg_email_required, hidden = False\<rparr>\<rparr>)) \<and>
   (trim (value' (email s)) \<noteq> [] \<and> \<not> email_pattern (trim (value' (email s))) \<longrightarrow>
      validateEmail s = (False, s\<lparr>errEmail := \<lparr>textContent = msg_email_invalid, hidden = False\<rparr>\<rparr>)) \<and>
   (trim (value' (email s)) \<noteq> [] \<and> email_pattern (trim (value' (email s))) \<longrightarrow>
      validateEmail s = (True, s\<lparr>errEmail := \<lparr>textContent = [], hidden = True\<rparr>\<rparr>)) \<and>
   (email_pattern (value' (email s)) \<longrightarrow>
      validateEmail s = (True, s\<lparr>errEmail := \<lparr>textContent = [], hidden = True\<rparr>\<rparr>)) \<and>
   (0x40 \<notin> set (value' (email s)) \<longrightarrow> \<not> fst (validateEmail s)) \<and>
   ((\<exists>p q. value' (email s) = p @ [0x40] @ q \<and> 0x2E \<notin> set q) \<longrightarrow> \<not> fst (validateEmail s))"
proof (intro conjI impI)
  let ?v = "trim (value' (email s))"
  show "validateEmail s = (False, s\<lparr>errEmail := \<lparr>textContent = msg_email_required, hidden = False\<rparr>\<rparr>)"
    if "?v = []"
    using that by (simp add: validateEmail_def showError_def)
  show "validateEmail s = (False, s\<lparr>errEmail := \<lparr>textContent = msg_email_invalid, hidden = False\<rparr>\<rparr>)"
    if "?v \<noteq> [] \<and> \<not> email_pattern ?v"
    using that by (simp add: validateEmail_def showError_def test_email_re)
  show "validateEmail s = (True, s\<lparr>errEmail := \<lparr>textContent = [], hidden = True\<rparr>\<rparr>)"
    if "?v \<noteq> [] \<and> email_pattern ?v"
    using that by (simp add: validateEmail_def clearError_def test_email_re)
  show "validateEmail s = (True, s\<lparr>errEmail := \<lparr>textContent = [], hidden = True\<rparr>\<rparr>)"
    if raw: "email_pattern (value' (email s))"
  proof -
    have "?v = value' (email s)"
      using raw by (intro trim_no_space email_pattern_no_space)
    then show ?thesis
      using raw email_pattern_nonempty [OF raw]
      by (simp add: validateEmail_def clearError_def test_email_re)
  qed
  show "\<not> fst (validateEmail s)" if "0x40 \<notin> set (value' (email s))"
  proof
    assume "fst (validateEmail s)"
    then have "email_pattern ?v" by (simp add: validateEmail_fst)
    then show False using email_pattern_trim_raw that by fastforce
  qed
  show "\<not> fst (validateEmail s)" if "\<exists>p q. value' (email s) = p @ [0x40] @ q \<and> 0x2E \<notin> set q"
  proof
    assume "fst (validateEmail s)"
    then have "email_pattern ?v" by (simp add: validateEmail_fst)
    then obtain u w where uw: "value' (email s) = u @ [0x40] @ w" "0x40 \<notin> set u" "0x40 \<notin> set w"
      "0x2E \<in> set w"
      using email_pattern_trim_raw by blast
    from that obtain p q where pq: "value' (email s) = p @ [0x40] @ q" "0x2E \<notin> set q" by blast
    have "q = w" using unique_split [of p "0x40" q u w] uw pq by simp
    then show False using uw pq by simp
  qed
qed

theorem validateEmail_cases_witness:
  "validateEmail (blank_page\<lparr>email := typed (js ''  '')\<rparr>) =
     (False, blank_page\<lparr>email := typed (js ''  ''),
                        errEmail := \<lparr>textContent = msg_email_required, hidden = False\<rparr>\<rparr>) \<and>
   validateEmail (blank_page\<lparr>email := typed (js ''ada@example'')\<rparr>) =
     (False, blank_page\<lparr>email := typed (js ''ada@example''),
                        errEmail := \<lparr>textContent = msg_email_invalid, hidden = False\<rparr>\<rparr>) \<and>
   validateEmail (blank_page\<lparr>email := typed (js '' ada@example.org '')\<rparr>) =
     (True, blank_page\<lparr>email := typed (js '' ada@example.org ''),
                        errEmail := \<lparr>textContent = [], hidden = True\<rparr>\<rparr>) \<and>
   validateEmail (blank_page\<lparr>email := typed (js ''ada@example.org'')\<rparr>) =
     (True, blank_page\<lparr>email := typed (js ''ada@example.org''),
                        errEmail := \<lparr>textContent = [], hidden = True\<rparr>\<rparr>) \<and>
   \<not> fst (validateEmail (blank_page\<lparr>email := typed (js ''ada.example.org'')\<rparr>)) \<and>
   \<not> fst (validateEmail (blank_page\<lparr>email := typed (js ''ada.l@example'')\<rparr>))"
proof -
  have e1: "trim (js ''  '') = []"
    by (simp add: trim_def js_def space_defs)
  have e2: "trim (js ''ada@example'') \<noteq> [] \<and> \<not> email_pattern (trim (js ''ada@example''))"
    unfolding test_email_re [symmetric] by (simp add: trim_def js_def space_defs re_defs)
  have e3: "trim (js '' ada@example.org '') \<noteq> [] \<and> email_pattern (trim (js '' ada@example.org ''))"
    unfolding test_email_re [symmetric] by (simp add: trim_def js_def space_defs re_defs)
  have e4: "email_pattern (js ''ada@example.org'')"
    unfolding test_email_re [symmetric] by (simp add: js_def space_defs re_defs)
  have e5: "0x40 \<notin> set (js ''ada.example.org'')"
    by (simp add: js_def)
  have e6: "\<exists>p q. js ''ada.l@example'' = p @ [0x40] @ q \<and> 0x2E \<notin> set q"
    by (intro exI [of _ "js ''ada.l''"] exI [of _ "js ''example''"]) (simp add: js_def)
  show ?thesis
    using validateEmail_cases [of "blank_page\<lparr>email := typed (js ''  '')\<rparr>"]
      validateEmail_cases [of "blank_page\<lparr>email := typed (js ''ada@example'')\<rparr>"]
      validateEmail_cases [of "blank_page\<lparr>email := typed (js '' ada@example.org '')\<rparr>"]
      validateEmail_cases [of "blank_page\<lparr>email := typed (js ''ada@example.org'')\<rparr>"]
      validateEmail_cases [of "blank_page\<lparr>email := typed (js ''ada.example.org'')\<rparr>"]
      validateEmail_cases [of "blank_page\<lparr>email := typed (js ''ada.l@example'')\<rparr>"]
      e1 e2 e3 e4 e5 e6
    by (simp add: typed_def)
qed

section \<open>The cover-letter validator\<close>

text \<open>
  C4, as stated, counts the length of the value itself. The validator counts the
  length of the trimmed value: a single space has length 1 and succeeds, and the
  letter \<open>a\<close> followed by nineteen spaces has length 20 and fails.
\<close>

theorem validateCover_raw_length_counterexample:
  "length (js '' '') = 1 \<and>
   fst (validateCover (blank_page\<lparr>cover := typed (js '' '')\<rparr>)) \<and>
   length (js ''a                   '') = 20 \<and>
   \<not> fst (validateCover (blank_page\<lparr>cover := typed (js ''a                   '')\<rparr>))"
  by (simp add: validateCover_def typed_def trim_def js_def space_defs)

text \<open>
  C4, amended. For the cover-letter validator, with lengths taken of the trimmed
  value: the empty string succeeds, as does every value whose trimmed value is empty;
  every value whose trimmed length is between 1 and 19 fails with the TooShort
  message; every value whose trimmed length is 20 or more succeeds, exactly 20
  included.
\<close>

theorem validateCover_cases:
  "(value' (cover s) = [] \<longrightarrow>
      validateCover s = (True, s\<lparr>errCover := \<lparr>textContent = [], hidden = True\<rparr>\<rparr>)) \<and>
   (trim (value' (cover s)) = [] \<longrightarrow>
      validateCover s = (True, s\<lparr>errCover := \<lparr>textContent = [], hidden = True\<rparr>\<rparr>)) \<and>
   (1 \<le> length (trim (value' (cover s))) \<and> length (trim (value' (cover s))) \<le> 19 \<longrightarrow>
      validateCover s = (False, s\<lparr>errCover := \<lparr>textContent = msg_cover_short, hidden = False\<rparr>\<rparr>)) \<and>
   (length (trim (value' (cover s))) \<ge> 20 \<longrightarrow>
      validateCover s = (True, s\<lparr>errCover := \<lparr>textContent = [], hidden = True\<rparr>\<rparr>))"
  by (auto simp: validateCover_def Let_def showError_def clearError_def trim_Nil)

theorem validateCover_cases_witness:
  "validateCover (blank_page\<lparr>cover := typed []\<rparr>) =
     (True, blank_page\<lparr>cover := typed [], errCover := \<lparr>textContent = [], hidden = True\<rparr>\<rparr>) \<and>
   validateCover (blank_page\<lparr>cover := typed (js ''   '')\<rparr>) =
     (True, blank_page\<lparr>cover := typed (js ''   ''),
                       errCover := \<lparr>textContent = [], hidden = True\<rparr>\<rparr>) \<and>
   validateCover (blank_page\<lparr>cover := typed (js '' Hello '')\<rparr>) =
     (False, blank_page\<lparr>cover := typed (js '' Hello ''),
                        errCover := \<lparr>textContent = msg_cover_short, hidden = False\<rparr>\<rparr>) \<and>
   validateCover (blank_page\<lparr>cover := typed (js ''I would like to join'')\<rparr>) =
     (True, blank_page\<lparr>cover := typed (js ''I would like to join''),
                       errCover := \<lparr>textContent = [], hidden = True\<rparr>\<rparr>)"
proof -
  have e2: "trim (js ''   '') = []"
    by (simp add: trim_def js_def space_defs)
  have e3: "1 \<le> length (trim (js '' Hello '')) \<and> length (trim (js '' Hello '')) \<le> 19"
    by (simp add: trim_def js_def space_defs)
  have e4: "length (trim (js ''I would like to join'')) \<ge> 20"
    by (simp add: trim_def js_def space_defs)
  show ?thesis
    using validateCover_cases [of "blank_page\<lparr>cover := typed []\<rparr>"]
      validateCover_cases [of "blank_page\<lparr>cover := typed (js ''   '')\<rparr>"]
      validateCover_cases [of "blank_page\<lparr>cover := typed (js '' Hello '')\<rparr>"]
      validateCover_cases [of "blank_page\<lparr>cover := typed (js ''I would like to join'')\<rparr>"]
      e2 e3 e4
    by (simp add: typed_def)
qed

section \<open>The resume validator\<close>

lemma js_split_not_Nil: "js_split sep s \<noteq> []"
  by (induction s) (auto split: list.splits)

lemma js_split_no_sep: "sep \<notin> set e \<Longrightarrow> js_split sep e = [e]"
  by (induction e) auto

lemma length_js_split: "Suc 0 < length (js_split sep s) \<longleftrightarrow> sep \<in> set s"
proof (induction s)
  case Nil
  then show ?case by simp
next
  case (Cons c cs)
  obtain p ps where "js_split sep cs = p # ps"
    using js_split_not_Nil by (cases "js_split sep cs") auto
  then show ?case using Cons by auto
qed

lemma last_js_split: "sep \<notin> set e \<Longrightarrow> last (js_split sep (stem @ sep # e)) = e"
proof (induction stem)
  case Nil
  then show ?case by (simp add: js_split_no_sep)
next
  case (Cons c st)
  obtain p ps where ps: "js_split sep (st @ sep # e) = p # ps"
    using js_split_not_Nil by (cases "js_split sep (st @ sep # e)") auto
  have "Suc 0 < length (js_split sep (st @ sep # e))"
    unfolding length_js_split by simp
  then have "ps \<noteq> []" using ps by auto
  then show ?case using Cons ps by auto
qed

lemma ALLOWED_EXT_nonempty: "[] \<notin> set ALLOWED_EXT"
  by (simp add: ALLOWED_EXT_def js_def)

lemma getExt_allowed: "getExt filename \<in> set ALLOWED_EXT \<longleftrightarrow> extension_allowed filename"
proof
  assume a: "getExt filename \<in> set ALLOWED_EXT"
  then have "Suc 0 < length (js_split 0x2E filename)"
    using ALLOWED_EXT_nonempty by (auto simp: getExt_def Let_def split: if_splits)
  then have "0x2E \<in> set filename" by (simp only: length_js_split)
  then obtain stem e where se: "filename = stem @ 0x2E # e" "0x2E \<notin> set e"
    using split_list_last by fastforce
  then have "getExt filename = toLowerCase e"
    by (simp add: getExt_def Let_def length_js_split last_js_split)
  then show "extension_allowed filename"
    unfolding extension_allowed_def using a se
    by (intro exI [of _ stem] exI [of _ e]) (simp add: ALLOWED_EXT_def)
next
  assume "extension_allowed filename"
  then obtain stem e where se: "filename = stem @ 0x2E # e" "0x2E \<notin> set e"
    and low: "toLowerCase e \<in> {js ''pdf'', js ''doc'', js ''docx''}"
    unfolding extension_allowed_def by auto
  have "getExt filename = toLowerCase e"
    using se by (simp add: getExt_def Let_def length_js_split last_js_split)
  then show "getExt filename \<in> set ALLOWED_EXT"
    using low by (simp add: ALLOWED_EXT_def)
qed

lemma prettyBytes_MAX: "prettyBytes MAX_FILE_BYTES = js ''2.0 MB''"
  by (simp add: prettyBytes_def MAX_FILE_BYTES_def toFixed1_def digits.simps js_def)

lemma msg_resume_large_text:
  "msg_resume_large = js ''File is too large '' @ [0x2014] @ js '' max is 2.0 MB.''"
  by (simp add: msg_resume_large_def prettyBytes_MAX js_def)

lemma validateResume_fst:
  "resume s = f # others \<Longrightarrow>
   fst (validateResume s) \<longleftrightarrow>
     file_size f \<le> MAX_FILE_BYTES \<and>
     (file_type f \<in> set ALLOWED_MIME \<or> getExt (file_name f) \<in> set ALLOWED_EXT)"
  by (auto simp: validateResume_def Let_def)

text \<open>
  C2. For a first selected file of acceptable size (at most \<open>MAX_FILE_BYTES\<close>), the
  resume validator succeeds if and only if the declared content type is one of
  \<open>application/pdf\<close>, \<open>application/msword\<close> and
  \<open>application/vnd.openxmlformats-officedocument.wordprocessingml.document\<close>, or the
  extension of the file name (the substring after the last \<open>.\<close>, lower-cased) is one
  of \<open>pdf\<close>, \<open>doc\<close> and \<open>docx\<close>; either is enough. Otherwise it fails with the
  InvalidType message. In particular \<open>resume.PDF\<close> with an empty content type
  succeeds and \<open>resume.txt\<close> with content type \<open>text/plain\<close> fails with InvalidType.
\<close>

theorem validateResume_type:
  "resume s = f # others \<and> file_size f \<le> MAX_FILE_BYTES \<longrightarrow>
     (fst (validateResume s) \<longleftrightarrow>
        file_type f \<in> {js ''application/pdf'', js ''application/msword'',
          js ''application/vnd.openxmlformats-officedocument.wordprocessingml.document''} \<or>
        extension_allowed (file_name f)) \<and>
     (\<not> fst (validateResume s) \<longrightarrow>
        validateResume s =
          (False, s\<lparr>errResume := \<lparr>textContent = msg_resume_type, hidden = False\<rparr>,
                     filePreview := (filePreview s)\<lparr>hidden := True\<rparr>\<rparr>)) \<and>
     (file_name f = js ''resume.PDF'' \<and> file_type f = [] \<longrightarrow> fst (validateResume s)) \<and>
     (file_name f = js ''resume.txt'' \<and> file_type f = js ''text/plain'' \<longrightarrow>
        validateResume s =
          (False, s\<lparr>errResume := \<lparr>textContent = msg_resume_type, hidden = False\<rparr>,
                     filePreview := (filePreview s)\<lparr>hidden := True\<rparr>\<rparr>))"
proof (intro impI, elim conjE)
  assume f: "resume s = f # others" and sz: "file_size f \<le> MAX_FILE_BYTES"
  have 1: "fst (validateResume s) \<longleftrightarrow>
        file_type f \<in> {js ''application/pdf'', js ''application/msword'',
          js ''application/vnd.openxmlformats-officedocument.wordprocessingml.document''} \<or>
        extension_allowed (file_name f)"
    using f sz by (simp add: validateResume_fst getExt_allowed ALLOWED_MIME_def)
  have 2: "validateResume s =
          (False, s\<lparr>errResume := \<lparr>textContent = msg_resume_type, hidden = False\<rparr>,
                     filePreview := (filePreview s)\<lparr>hidden := True\<rparr>\<rparr>)"
    if "\<not> fst (validateResume s)"
  proof -
    have "file_type f \<notin> set ALLOWED_MIME" "getExt (file_name f) \<notin> set ALLOWED_EXT"
      using that f sz by (simp_all add: validateResume_fst)
    then show ?thesis
      using f sz by (simp add: validateResume_def Let_def showError_def clearError_def)
  qed
  have pdf: "getExt (js ''resume.PDF'') \<in> set ALLOWED_EXT"
    by (simp add: getExt_def ALLOWED_EXT_def js_def toLowerCase_def lower_cu_def)
  have no_txt: "getExt (js ''resume.txt'') \<notin> set ALLOWED_EXT"
    by (simp add: getExt_def ALLOWED_EXT_def js_def toLowerCase_def lower_cu_def)
  have plain: "js ''text/plain'' \<notin> set ALLOWED_MIME"
    by (simp add: ALLOWED_MIME_def js_def)
  have 3: "fst (validateResume s)" if "file_name f = js ''resume.PDF'' \<and> file_type f = []"
    using that f sz pdf by (simp add: validateResume_fst)
  have 4: "validateResume s =
          (False, s\<lparr>errResume := \<lparr>textContent = msg_resume_type, hidden = False\<rparr>,
                     filePreview := (filePreview s)\<lparr>hidden := True\<rparr>\<rparr>)"
    if "file_name f = js ''resume.txt'' \<and> file_type f = js ''text/plain''"
    using that f sz no_txt plain 2 by (simp add: validateResume_fst)
  show "(fst (validateResume s) \<longleftrightarrow>
        file_type f \<in> {js ''application/pdf'', js ''application/msword'',
          js ''application/vnd.openxmlformats-officedocument.wordprocessingml.document''} \<or>
        extension_allowed (file_name f)) \<and>
     (\<not> fst (validateResume s) \<longrightarrow>
        validateResume s =
          (False, s\<lparr>errResume := \<lparr>textContent = msg_resume_type, hidden = False\<rparr>,
                     filePreview := (filePreview s)\<lparr>hidden := True\<rparr>\<rparr>)) \<and>
     (file_name f = js ''resume.PDF'' \<and> file_type f = [] \<longrightarrow> fst (validateResume s)) \<and>
     (file_name f = js ''resume.txt'' \<and> file_type f = js ''text/plain'' \<longrightarrow>
        validateResume s =
          (False, s\<lparr>errResume := \<lparr>textContent = msg_resume_type, hidden = False\<rparr>,
                     filePreview := (filePreview s)\<lparr>hidden := True\<rparr>\<rparr>))"
    using 1 2 3 4 by blast
qed

theorem validateResume_type_witness:
  "fst (validateResume
         (blank_page\<lparr>resume := [\<lparr>file_name = js ''resume.PDF'', file_size = 2048, file_type = []\<rparr>]\<rparr>)) \<and>
   validateResume
     (blank_page\<lparr>resume := [\<lparr>file_name = js ''resume.txt'', file_size = 10,
                                file_type = js ''text/plain''\<rparr>]\<rparr>) =
     (False,
      blank_page\<lparr>resume := [\<lparr>file_name = js ''resume.txt'', file_size = 10,
                                file_type = js ''text/plain''\<rparr>]\<rparr>
        \<lparr>errResume := \<lparr>textContent = msg_resume_type, hidden = False\<rparr>,
         filePreview :=
           (filePreview (blank_page\<lparr>resume := [\<lparr>file_name = js ''resume.txt'', file_size = 10,
                                                     file_type = js ''text/plain''\<rparr>]\<rparr>))
             \<lparr>hidden := True\<rparr>\<rparr>)"
proof -
  let ?f1 = "\<lparr>file_name = js ''resume.PDF'', file_size = 2048, file_type = []\<rparr>"
  let ?f2 = "\<lparr>file_name = js ''resume.txt'', file_size = 10, file_type = js ''text/plain''\<rparr>"
  have a1: "resume (blank_page\<lparr>resume := [?f1]\<rparr>) = ?f1 # [] \<and> file_size ?f1 \<le> MAX_FILE_BYTES"
    by (simp add: MAX_FILE_BYTES_def)
  have a2: "file_name ?f1 = js ''resume.PDF'' \<and> file_type ?f1 = []"
    by simp
  have b1: "resume (blank_page\<lparr>resume := [?f2]\<rparr>) = ?f2 # [] \<and> file_size ?f2 \<le> MAX_FILE_BYTES"
    by (simp add: MAX_FILE_BYTES_def)
  have b2: "file_name ?f2 = js ''resume.txt'' \<and> file_type ?f2 = js ''text/plain''"
    by simp
  show ?thesis
    using validateResume_type [of "blank_page\<lparr>resume := [?f1]\<rparr>" ?f1 "[]"]
      validateResume_type [of "blank_page\<lparr>resume := [?f2]\<rparr>" ?f2 "[]"]
      a1 a2 b1 b2
    by blast
qed

text \<open>
  C3. The size check is a strict greater-than against 2,097,152 bytes: for a first
  selected file of an allowed type, the validator succeeds when the size is exactly
  2,097,152 bytes (and for every smaller size), and fails with the TooLarge message
  when the size is 2,097,153 bytes or more.
\<close>

theorem validateResume_size:
  "resume s = f # others \<and>
   (file_type f \<in> {js ''application/pdf'', js ''application/msword'',
      js ''application/vnd.openxmlformats-officedocument.wordprocessingml.document''} \<or>
    extension_allowed (file_name f)) \<longrightarrow>
     MAX_FILE_BYTES = 2097152 \<and>
     (file_size f = 2097152 \<longrightarrow> fst (validateResume s)) \<and>
     (file_size f \<le> 2097152 \<longrightarrow> fst (validateResume s)) \<and>
     (file_size f \<ge> 2097153 \<longrightarrow>
        validateResume s =
          (False, s\<lparr>errResume := \<lparr>textContent = msg_resume_large, hidden = False\<rparr>,
                     filePreview := (filePreview s)\<lparr>hidden := True\<rparr>\<rparr>)) \<and>
     msg_resume_large = js ''File is too large '' @ [0x2014] @ js '' max is 2.0 MB.''"
proof (intro impI, elim conjE)
  assume f: "resume s = f # others"
    and ty: "file_type f \<in> {js ''application/pdf'', js ''application/msword'',
      js ''application/vnd.openxmlformats-officedocument.wordprocessingml.document''} \<or>
    extension_allowed (file_name f)"
  have m: "MAX_FILE_BYTES = 2097152"
    by (simp add: MAX_FILE_BYTES_def)
  have ok: "file_type f \<in> set ALLOWED_MIME \<or> getExt (file_name f) \<in> set ALLOWED_EXT"
    using ty by (simp add: getExt_allowed ALLOWED_MIME_def)
  have small: "fst (validateResume s)" if "file_size f \<le> 2097152"
    using that f ok m by (simp add: validateResume_fst)
  have large: "validateResume s =
          (False, s\<lparr>errResume := \<lparr>textContent = msg_resume_large, hidden = False\<rparr>,
                     filePreview := (filePreview s)\<lparr>hidden := True\<rparr>\<rparr>)"
    if "file_size f \<ge> 2097153"
    using that f m by (simp add: validateResume_def showError_def clearError_def)
  show "MAX_FILE_BYTES = 2097152 \<and>
     (file_size f = 2097152 \<longrightarrow> fst (validateResume s)) \<and>
     (file_size f \<le> 2097152 \<longrightarrow> fst (validateResume s)) \<and>
     (file_size f \<ge> 2097153 \<longrightarrow>
        validateResume s =
          (False, s\<lparr>errResume := \<lparr>textContent = msg_resume_large, hidden = False\<rparr>,
                     filePreview := (filePreview s)\<lparr>hidden := True\<rparr>\<rparr>)) \<and>
     msg_resume_large = js ''File is too large '' @ [0x2014] @ js '' max is 2.0 MB.''"
    using m small large msg_resume_large_text by simp
qed

theorem validateResume_size_witness:
  "fst (validateResume
         (blank_page\<lparr>resume := [\<lparr>file_name = js ''cv'', file_size = 2097152,
                                    file_type = js ''application/pdf''\<rparr>]\<rparr>)) \<and>
   validateResume
     (blank_page\<lparr>resume := [\<lparr>file_name = js ''cv'', file_size = 2097153,
                                file_type = js ''application/pdf''\<rparr>]\<rparr>) =
     (False,
      blank_page\<lparr>resume := [\<lparr>file_name = js ''cv'', file_size = 2097153,
                                file_type = js ''application/pdf''\<rparr>]\<rparr>
        \<lparr>errResume := \<lparr>textContent = msg_resume_large, hidden = False\<rparr>,
         filePreview :=
           (filePreview (blank_page\<lparr>resume := [\<lparr>file_name = js ''cv'', file_size = 2097153,
                                                     file_type = js ''application/pdf''\<rparr>]\<rparr>))
             \<lparr>hidden := True\<rparr>\<rparr>)"
proof -
  let ?f1 = "\<lparr>file_name = js ''cv'', file_size = 2097152, file_type = js ''application/pdf''\<rparr>"
  let ?f2 = "\<lparr>file_name = js ''cv'', file_size = 2097153, file_type = js ''application/pdf''\<rparr>"
  let ?mimes = "{js ''application/pdf'', js ''application/msword'',
      js ''application/vnd.openxmlformats-officedocument.wordprocessingml.document''}"
  have a1: "resume (blank_page\<lparr>resume := [?f1]\<rparr>) = ?f1 # [] \<and>
            (file_type ?f1 \<in> ?mimes \<or> extension_allowed (file_name ?f1))"
    by simp
  have a2: "file_size ?f1 = 2097152"
    by simp
  have b1: "resume (blank_page\<lparr>resume := [?f2]\<rparr>) = ?f2 # [] \<and>
            (file_type ?f2 \<in> ?mimes \<or> extension_allowed (file_name ?f2))"
    by simp
  have b2: "file_size ?f2 \<ge> 2097153"
    by simp
  show ?thesis
    using validateResume_size [of "blank_page\<lparr>resume := [?f1]\<rparr>" ?f1 "[]"]
      validateResume_size [of "blank_page\<lparr>resume := [?f2]\<rparr>" ?f2 "[]"]
      a1 a2 b1 b2
    by blast
qed

text \<open>
  C10. The resume validator checks in the order required, size, type: with no file
  selected it fails with the Required message; whenever the first selected file is
  larger than 2,097,152 bytes it fails with the TooLarge message, whatever the
  file's content type and name, and that message is not the InvalidType message;
  and every failing run hides the file preview.
\<close>

theorem validateResume_order:
  "(resume s = [] \<longrightarrow>
      validateResume s =
        (False, s\<lparr>errResume := \<lparr>textContent = msg_resume_required, hidden = False\<rparr>,
                   filePreview := (filePreview s)\<lparr>hidden := True\<rparr>\<rparr>)) \<and>
   (resume s = f # others \<and> file_size f > 2097152 \<longrightarrow>
      validateResume s =
        (False, s\<lparr>errResume := \<lparr>textContent = msg_resume_large, hidden = False\<rparr>,
                   filePreview := (filePreview s)\<lparr>hidden := True\<rparr>\<rparr>)) \<and>
   (\<not> fst (validateResume s) \<longrightarrow> hidden (filePreview (snd (validateResume s)))) \<and>
   msg_resume_large \<noteq> msg_resume_type"
proof (intro conjI impI)
  show "validateResume s =
        (False, s\<lparr>errResume := \<lparr>textContent = msg_resume_required, hidden = False\<rparr>,
                   filePreview := (filePreview s)\<lparr>hidden := True\<rparr>\<rparr>)"
    if "resume s = []"
    using that by (simp add: validateResume_def showError_def clearError_def)
  show "validateResume s =
        (False, s\<lparr>errResume := \<lparr>textContent = msg_resume_large, hidden = False\<rparr>,
                   filePreview := (filePreview s)\<lparr>hidden := True\<rparr>\<rparr>)"
    if "resume s = f # others \<and> file_size f > 2097152"
    using that by (simp add: validateResume_def showError_def clearError_def MAX_FILE_BYTES_def)
  show "hidden (filePreview (snd (validateResume s)))" if "\<not> fst (validateResume s)"
    using that by (auto simp: validateResume_def Let_def split: list.splits if_splits)
  show "msg_resume_large \<noteq> msg_resume_type"
    by (simp add: msg_resume_large_def msg_resume_type_def js_def)
qed

theorem validateResume_order_witness:
  "validateResume blank_page =
     (False, blank_page\<lparr>errResume := \<lparr>textContent = msg_resume_required, hidden = False\<rparr>,
                        filePreview := (filePreview blank_page)\<lparr>hidden := True\<rparr>\<rparr>) \<and>
   validateResume
     (blank_page\<lparr>resume := [\<lparr>file_name = js ''big.exe'', file_size = 3000000,
                                file_type = js ''application/x-msdownload''\<rparr>]\<rparr>) =
     (False,
      blank_page\<lparr>resume := [\<lparr>file_name = js ''big.exe'', file_size = 3000000,
                                file_type = js ''application/x-msdownload''\<rparr>]\<rparr>
        \<lparr>errResume := \<lparr>textContent = msg_resume_large, hidden = False\<rparr>,
         filePreview :=
           (filePreview (blank_page\<lparr>resume := [\<lparr>file_name = js ''big.exe'', file_size = 3000000,
                                 file_type = js ''application/x-msdownload''\<rparr>]\<rparr>))
             \<lparr>hidden := True\<rparr>\<rparr>) \<and>
   hidden (filePreview (snd (validateResume blank_page)))"
proof -
  let ?f = "\<lparr>file_name = js ''big.exe'', file_size = 3000000,
             file_type = js ''application/x-msdownload''\<rparr>"
  have r: "resume blank_page = []"
    by (simp add: blank_page_def)
  have b: "resume (blank_page\<lparr>resume := [?f]\<rparr>) = ?f # [] \<and> file_size ?f > 2097152"
    by simp
  have 1: "validateResume blank_page =
     (False, blank_page\<lparr>errResume := \<lparr>textContent = msg_resume_required, hidden = False\<rparr>,
                        filePreview := (filePreview blank_page)\<lparr>hidden := True\<rparr>\<rparr>)"
    using validateResume_order [of blank_page] r by blast
  then have n: "\<not> fst (validateResume blank_page)"
    by simp
  show ?thesis
    using validateResume_order [of blank_page]
      validateResume_order [of "blank_page\<lparr>resume := [?f]\<rparr>" ?f "[]"] r b n
    by blast
qed

section \<open>The portfolio validator\<close>

text \<open>
  C7. For every value of the portfolio control and every URL parser of the platform:
  when the trimmed value is empty the validator succeeds; when the trimmed value is
  not empty and does not parse it fails with the InvalidURL message; when it parses
  and the scheme is neither \<open>http\<close> nor \<open>https\<close> it fails with the DisallowedScheme
  message; otherwise it succeeds. So \<open>not a url\<close> fails with InvalidURL where the
  parser rejects it, \<open>ftp://x.com\<close> fails with DisallowedScheme where the parser
  gives it the protocol \<open>ftp:\<close>, and \<open>https://example.com\<close> succeeds where the parser
  gives it the protocol \<open>https:\<close>.
\<close>

theorem validatePortfolio_cases:
  "(trim (value' (portfolio s)) = [] \<longrightarrow>
      validatePortfolio URL s = (True, s\<lparr>errPortfolio := \<lparr>textContent = [], hidden = True\<rparr>\<rparr>)) \<and>
   (trim (value' (portfolio s)) \<noteq> [] \<and> URL (trim (value' (portfolio s))) = None \<longrightarrow>
      validatePortfolio URL s =
        (False, s\<lparr>errPortfolio := \<lparr>textContent = msg_portfolio_invalid, hidden = False\<rparr>\<rparr>)) \<and>
   (trim (value' (portfolio s)) \<noteq> [] \<and> URL (trim (value' (portfolio s))) = Some u \<and>
    protocol u \<noteq> js ''http:'' \<and> protocol u \<noteq> js ''https:'' \<longrightarrow>
      validatePortfolio URL s =
        (False, s\<lparr>errPortfolio := \<lparr>textContent = msg_portfolio_scheme, hidden = False\<rparr>\<rparr>)) \<and>
   (trim (value' (portfolio s)) \<noteq> [] \<and> URL (trim (value' (portfolio s))) = Some u \<and>
    (protocol u = js ''http:'' \<or> protocol u = js ''https:'') \<longrightarrow>
      validatePortfolio URL s = (True, s\<lparr>errPortfolio := \<lparr>textContent = [], hidden = True\<rparr>\<rparr>)) \<and>
   (value' (portfolio s) = js ''not a url'' \<and> URL (js ''not a url'') = None \<longrightarrow>
      validatePortfolio URL s =
        (False, s\<lparr>errPortfolio := \<lparr>textContent = msg_portfolio_invalid, hidden = False\<rparr>\<rparr>)) \<and>
   (value' (portfolio s) = js ''ftp://x.com'' \<and>
    URL (js ''ftp://x.com'') = Some \<lparr>protocol = js ''ftp:''\<rparr> \<longrightarrow>
      validatePortfolio URL s =
        (False, s\<lparr>errPortfolio := \<lparr>textContent = msg_portfolio_scheme, hidden = False\<rparr>\<rparr>)) \<and>
   (value' (portfolio s) = js ''https://example.com'' \<and>
    URL (js ''https://example.com'') = Some \<lparr>protocol = js ''https:''\<rparr> \<longrightarrow>
      validatePortfolio URL s = (True, s\<lparr>errPortfolio := \<lparr>textContent = [], hidden = True\<rparr>\<rparr>))"
proof -
  have t1: "trim (js ''not a url'') = js ''not a url''"
    by (simp add: trim_def js_def space_defs)
  have t2: "trim (js ''ftp://x.com'') = js ''ftp://x.com''"
    by (simp add: trim_def js_def space_defs)
  have t3: "trim (js ''https://example.com'') = js ''https://example.com''"
    by (simp add: trim_def js_def space_defs)
  have n1: "js ''not a url'' \<noteq> []" "js ''ftp://x.com'' \<noteq> []" "js ''https://example.com'' \<noteq> []"
    by (simp_all add: js_def)
  have p: "js ''ftp:'' \<noteq> js ''http:''" "js ''ftp:'' \<noteq> js ''https:''"
    by (simp_all add: js_def)
  show ?thesis
    using t1 t2 t3 n1 p
    by (auto simp: validatePortfolio_def Let_def showError_def clearError_def)
qed

theorem validatePortfolio_cases_witness:
  "validatePortfolio sample_URL (blank_page\<lparr>portfolio := typed (js ''  '')\<rparr>) =
     (True, blank_page\<lparr>portfolio := typed (js ''  ''),
                       errPortfolio := \<lparr>textContent = [], hidden = True\<rparr>\<rparr>) \<and>
   validatePortfolio sample_URL (blank_page\<lparr>portfolio := typed (js ''not a url'')\<rparr>) =
     (False, blank_page\<lparr>portfolio := typed (js ''not a url''),
                        errPortfolio := \<lparr>textContent = msg_portfolio_invalid, hidden = False\<rparr>\<rparr>) \<and>
   validatePortfolio sample_URL (blank_page\<lparr>portfolio := typed (js ''ftp://x.com'')\<rparr>) =
     (False, blank_page\<lparr>portfolio := typed (js ''ftp://x.com''),
                        errPortfolio := \<lparr>textContent = msg_portfolio_scheme, hidden = False\<rparr>\<rparr>) \<and>
   validatePortfolio sample_URL (blank_page\<lparr>portfolio := typed (js ''https://example.com'')\<rparr>) =
     (True, blank_page\<lparr>portfolio := typed (js ''https://example.com''),
                       errPortfolio := \<lparr>textContent = [], hidden = True\<rparr>\<rparr>)"
proof -
  have e1: "trim (js ''  '') = []"
    by (simp add: trim_def js_def space_defs)
  have t: "trim (js ''not a url'') = js ''not a url''"
    "trim (js ''ftp://x.com'') = js ''ftp://x.com''"
    "trim (js ''https://example.com'') = js ''https://example.com''"
    by (simp_all add: trim_def js_def space_defs)
  have n: "js ''not a url'' \<noteq> []" "js ''ftp://x.com'' \<noteq> []" "js ''https://example.com'' \<noteq> []"
    by (simp_all add: js_def)
  have u1: "sample_URL (js ''not a url'') = None"
    by (simp add: sample_URL_def js_def isAlpha_def isSchemeChar_def lower_cu_def)
  have u2: "sample_URL (js ''ftp://x.com'') = Some \<lparr>protocol = js ''ftp:''\<rparr>"
    by (simp add: sample_URL_def js_def isAlpha_def isSchemeChar_def lower_cu_def)
  have u3: "sample_URL (js ''https://example.com'') = Some \<lparr>protocol = js ''https:''\<rparr>"
    by (simp add: sample_URL_def js_def isAlpha_def isSchemeChar_def lower_cu_def)
  have p: "js ''ftp:'' \<noteq> js ''http:''" "js ''ftp:'' \<noteq> js ''https:''"
    by (simp_all add: js_def)
  show ?thesis
    using validatePortfolio_cases [of "blank_page\<lparr>portfolio := typed (js ''  '')\<rparr>" sample_URL]
      validatePortfolio_cases [of "blank_page\<lparr>portfolio := typed (js ''not a url'')\<rparr>" sample_URL]
      validatePortfolio_cases [of "blank_page\<lparr>portfolio := typed (js ''ftp://x.com'')\<rparr>"
        sample_URL "\<lparr>protocol = js ''ftp:''\<rparr>"]
      validatePortfolio_cases [of "blank_page\<lparr>portfolio := typed (js ''https://example.com'')\<rparr>"
        sample_URL "\<lparr>protocol = js ''https:''\<rparr>"]
      e1 t n u1 u2 u3 p
    by (simp add: typed_def)
qed

section \<open>The listeners and the state machine\<close>

lemma validateName_frame:
  "validateName s = (name_ok (fullName s), s\<lparr>errName := name_err (fullName s)\<rparr>)"
  by (simp add: validateName_def name_ok_def name_err_def Let_def showError_def clearError_def)

lemma validateEmail_frame:
  "validateEmail s = (email_ok (email s), s\<lparr>errEmail := email_err (email s)\<rparr>)"
  by (simp add: validateEmail_def email_ok_def email_err_def Let_def showError_def clearError_def)

lemma validateCover_frame:
  "validateCover s = (cover_ok (cover s), s\<lparr>errCover := cover_err (cover s)\<rparr>)"
  by (simp add: validateCover_def cover_ok_def cover_err_def Let_def showError_def clearError_def)

lemma validatePortfolio_frame:
  "validatePortfolio URL s =
     (portfolio_ok URL (portfolio s), s\<lparr>errPortfolio := portfolio_err URL (portfolio s)\<rparr>)"
  by (simp add: validatePortfolio_def portfolio_ok_def portfolio_err_def Let_def showError_def
      clearError_def split: option.splits)

lemma validateResume_frame:
  "validateResume s =
     (resume_ok (resume s),
      s\<lparr>errResume := resume_err (resume s),
        filePreview := resume_preview (resume s) (filePreview s)\<rparr>)"
  by (simp add: validateResume_def resume_ok_def resume_err_def resume_preview_def Let_def
      showError_def clearError_def split: list.splits)

lemmas frames = validateName_frame validateEmail_frame validateCover_frame
  validatePortfolio_frame validateResume_frame

lemma onSubmit_eq:
  "onSubmit URL e s =
     (e\<lparr>defaultPrevented := True\<rparr>,
      if name_ok (fullName s) \<and> email_ok (email s) \<and> cover_ok (cover s) \<and>
         portfolio_ok URL (portfolio s) \<and> resume_ok (resume s)
      then s\<lparr>errName := name_err (fullName s), errEmail := email_err (email s),
             errCover := cover_err (cover s), errPortfolio := portfolio_err URL (portfolio s),
             errResume := resume_err (resume s),
             filePreview := resume_preview (resume s) (filePreview s),
             formStatus := (formStatus s)\<lparr>status_text := []\<rparr>,
             submitBtn := (submitBtn s)\<lparr>disabled := True, label := js ''Checking...''\<rparr>,
             timers := timers s @ [(800, SubmitDone)]\<rparr>
      else s\<lparr>errName := name_err (fullName s), errEmail := email_err (email s),
             errCover := cover_err (cover s), errPortfolio := portfolio_err URL (portfolio s),
             errResume := resume_err (resume s),
             filePreview := resume_preview (resume s) (filePreview s),
             formStatus := (formStatus s)\<lparr>status_text := msg_fix_errors,
                                           color := js ''var(--danger)''\<rparr>,
             submitBtn := (submitBtn s)\<lparr>disabled := False, label := js ''Submit application''\<rparr>\<rparr>)"
  by (simp add: onSubmit_def Let_def frames)

lemma run_callback_isDirty: "isDirty (run_callback cb t) = isDirty t"
  by (cases cb) (simp add: form_reset_def Let_def)

lemma step_isDirty: "isDirty (step URL s a) \<longleftrightarrow> isDirty s \<or> is_input a"
proof (cases a)
  case (Edit f v)
  then show ?thesis by (cases f) (simp_all add: frames)
next
  case TimerFires
  then show ?thesis
    by (simp add: run_callback_isDirty split: list.splits)
qed (simp_all add: frames onSubmit_eq onClearFile_def)

lemma run_isDirty:
  "isDirty (foldl (step URL) s as) \<longleftrightarrow> isDirty s \<or> (\<exists>a\<in>set as. is_input a)"
  by (induction as arbitrary: s) (auto simp: step_isDirty)

lemma step_quiet:
  "a \<noteq> Submit \<Longrightarrow> a \<noteq> TimerFires \<Longrightarrow>
   submitBtn (step URL s a) = submitBtn s \<and> timers (step URL s a) = timers s"
proof (cases a)
  case (Edit f v)
  then show ?thesis by (cases f) (simp_all add: frames)
qed (simp_all add: frames onClearFile_def)

lemma run_quiet:
  "\<forall>a\<in>set as. a \<noteq> Submit \<and> a \<noteq> TimerFires \<Longrightarrow>
   submitBtn (foldl (step URL) s as) = submitBtn s \<and> timers (foldl (step URL) s as) = timers s"
  by (induction as arbitrary: s) (simp_all add: step_quiet)

lemma step_quiet_defaults:
  "a \<noteq> Submit \<Longrightarrow> a \<noteq> TimerFires \<Longrightarrow>
   defaultValue (fullName (step URL s a)) = defaultValue (fullName s) \<and>
   defaultValue (email (step URL s a)) = defaultValue (email s) \<and>
   defaultValue (cover (step URL s a)) = defaultValue (cover s) \<and>
   defaultValue (portfolio (step URL s a)) = defaultValue (portfolio s)"
proof (cases a)
  case (Edit f v)
  then show ?thesis by (cases f) (simp_all add: frames)
qed (simp_all add: frames onClearFile_def)

lemma run_quiet_defaults:
  "\<forall>a\<in>set as. a \<noteq> Submit \<and> a \<noteq> TimerFires \<Longrightarrow>
   defaultValue (fullName (foldl (step URL) s as)) = defaultValue (fullName s) \<and>
   defaultValue (email (foldl (step URL) s as)) = defaultValue (email s) \<and>
   defaultValue (cover (foldl (step URL) s as)) = defaultValue (cover s) \<and>
   defaultValue (portfolio (foldl (step URL) s as)) = defaultValue (portfolio s)"
  by (induction as arbitrary: s) (simp_all add: step_quiet_defaults)

lemma run_callback_effect:
  "run_callback SubmitDone t =
     t\<lparr>submitBtn := (submitBtn t)\<lparr>disabled := False, label := js ''Submit application''\<rparr>,
       formStatus := (formStatus t)\<lparr>status_text := msg_success, color := js ''var(--success)''\<rparr>,
       fullName := (fullName t)\<lparr>value' := defaultValue (fullName t)\<rparr>,
       email := (email t)\<lparr>value' := defaultValue (email t)\<rparr>,
       cover := (cover t)\<lparr>value' := defaultValue (cover t)\<rparr>,
       portfolio := (portfolio t)\<lparr>value' := defaultValue (portfolio t)\<rparr>,
       resume := [],
       filePreview := (filePreview t)\<lparr>hidden := True\<rparr>\<rparr>"
  by (simp add: form_reset_def Let_def)

text \<open>
  On every run of the page from its load on which submits come from the enabled
  control, a completion is pending only while the control is disabled with the label
  \<open>Checking...\<close>, and at most one is pending.
\<close>

lemma step_pending_ok:
  assumes "pending_ok s" and "a = Submit \<longrightarrow> \<not> disabled (submitBtn s)"
  shows "pending_ok (step URL s a)"
proof (cases "a = Submit \<or> a = TimerFires")
  case False
  then show ?thesis
    using assms(1) step_quiet [of a URL s] by (simp add: pending_ok_def)
next
  case True
  then show ?thesis
  proof
    assume a: "a = Submit"
    then have "timers s = []"
      using assms by (auto simp: pending_ok_def)
    then show ?thesis
      using a by (simp add: pending_ok_def onSubmit_eq)
  next
    assume a: "a = TimerFires"
    show ?thesis
      using a assms(1)
      by (auto simp: pending_ok_def run_callback_effect simp del: run_callback.simps)
  qed
qed

lemma run_pending_ok:
  "pending_ok s \<Longrightarrow> submit_when_enabled URL s as \<Longrightarrow> pending_ok (foldl (step URL) s as)"
  by (induction as arbitrary: s) (simp_all add: step_pending_ok)

lemma pending_invariant:
  "submit_when_enabled URL (load page) as \<Longrightarrow> pending_ok (foldl (step URL) (load page) as)"
  by (rule run_pending_ok) (simp_all add: pending_ok_def load_def)

section \<open>The submit listener\<close>

text \<open>
  C1. On a submit attempt all five validators run, whatever the others return: after
  the listener, each of the five error nodes and the file preview are what the
  field's own validator leaves there. The overall result is the conjunction of the
  five results: no timeout is added exactly when the conjunction is false. In that
  case the submit control is enabled again with the label \<open>Submit application\<close>, the
  status line shows the aggregate failure message, and the pending timeouts are as
  before.
\<close>

theorem onSubmit_invalid:
  "errName (snd (onSubmit URL e s)) = errName (snd (validateName s)) \<and>
   errEmail (snd (onSubmit URL e s)) = errEmail (snd (validateEmail s)) \<and>
   errCover (snd (onSubmit URL e s)) = errCover (snd (validateCover s)) \<and>
   errPortfolio (snd (onSubmit URL e s)) = errPortfolio (snd (validatePortfolio URL s)) \<and>
   errResume (snd (onSubmit URL e s)) = errResume (snd (validateResume s)) \<and>
   filePreview (snd (onSubmit URL e s)) = filePreview (snd (validateResume s)) \<and>
   (timers (snd (onSubmit URL e s)) = timers s \<longleftrightarrow>
      \<not> (fst (validateName s) \<and> fst (validateEmail s) \<and> fst (validateCover s) \<and>
         fst (validatePortfolio URL s) \<and> fst (validateResume s))) \<and>
   (\<not> (fst (validateName s) \<and> fst (validateEmail s) \<and> fst (validateCover s) \<and>
       fst (validatePortfolio URL s) \<and> fst (validateResume s)) \<longrightarrow>
      submitBtn (snd (onSubmit URL e s)) =
        (submitBtn s)\<lparr>disabled := False, label := js ''Submit application''\<rparr> \<and>
      formStatus (snd (onSubmit URL e s)) =
        (formStatus s)\<lparr>status_text := msg_fix_errors, color := js ''var(--danger)''\<rparr> \<and>
      timers (snd (onSubmit URL e s)) = timers s)"
  by (simp add: onSubmit_eq frames)

theorem onSubmit_invalid_witness:
  "submitBtn (snd (onSubmit sample_URL \<lparr>defaultPrevented = False\<rparr>
                    (filled_page\<lparr>fullName := typed []\<rparr>))) =
     (submitBtn (filled_page\<lparr>fullName := typed []\<rparr>))
       \<lparr>disabled := False, label := js ''Submit application''\<rparr> \<and>
   formStatus (snd (onSubmit sample_URL \<lparr>defaultPrevented = False\<rparr>
                     (filled_page\<lparr>fullName := typed []\<rparr>))) =
     (formStatus (filled_page\<lparr>fullName := typed []\<rparr>))
       \<lparr>status_text := msg_fix_errors, color := js ''var(--danger)''\<rparr> \<and>
   timers (snd (onSubmit sample_URL \<lparr>defaultPrevented = False\<rparr>
                 (filled_page\<lparr>fullName := typed []\<rparr>))) =
     timers (filled_page\<lparr>fullName := typed []\<rparr>)"
proof -
  let ?s = "filled_page\<lparr>fullName := typed []\<rparr>"
  have "\<not> fst (validateName ?s)"
    by (simp add: validateName_def typed_def trim_def)
  then have h: "\<not> (fst (validateName ?s) \<and> fst (validateEmail ?s) \<and> fst (validateCover ?s) \<and>
       fst (validatePortfolio sample_URL ?s) \<and> fst (validateResume ?s))"
    by blast
  show ?thesis
    using onSubmit_invalid [of sample_URL "\<lparr>defaultPrevented = False\<rparr>" ?s] h
    by blast
qed

text \<open>
  C8. On a submit attempt where all five validators succeed and no timeout is
  pending, the listener schedules exactly one timeout, of 800 time units, and leaves
  the submit control disabled with the label \<open>Checking...\<close>. The control stays so
  through whatever happens on the page before the timeout fires, short of another
  submit event. When the timeout fires the control is enabled with the label
  \<open>Submit application\<close>, the status line shows the success message, every text control
  has its default value, no file is selected and the file preview is hidden.
\<close>

theorem onSubmit_valid:
  assumes "fst (validateName s) \<and> fst (validateEmail s) \<and> fst (validateCover s) \<and>
           fst (validatePortfolio URL s) \<and> fst (validateResume s)"
    and "\<forall>a\<in>set as. a \<noteq> Submit \<and> a \<noteq> TimerFires"
    and "timers s = []"
  shows "timers (snd (onSubmit URL e s)) = [(800, SubmitDone)] \<and>
         submitBtn (snd (onSubmit URL e s)) =
           (submitBtn s)\<lparr>disabled := True, label := js ''Checking...''\<rparr> \<and>
         timers (foldl (step URL) (snd (onSubmit URL e s)) as) = [(800, SubmitDone)] \<and>
         submitBtn (foldl (step URL) (snd (onSubmit URL e s)) as) =
           (submitBtn s)\<lparr>disabled := True, label := js ''Checking...''\<rparr> \<and>
         timers (step URL (foldl (step URL) (snd (onSubmit URL e s)) as) TimerFires) = [] \<and>
         submitBtn (step URL (foldl (step URL) (snd (onSubmit URL e s)) as) TimerFires) =
           (submitBtn s)\<lparr>disabled := False, label := js ''Submit application''\<rparr> \<and>
         status_text (formStatus (step URL (foldl (step URL) (snd (onSubmit URL e s)) as) TimerFires)) =
           msg_success \<and>
         color (formStatus (step URL (foldl (step URL) (snd (onSubmit URL e s)) as) TimerFires)) =
           js ''var(--success)'' \<and>
         value' (fullName (step URL (foldl (step URL) (snd (onSubmit URL e s)) as) TimerFires)) =
           defaultValue (fullName s) \<and>
         value' (email (step URL (foldl (step URL) (snd (onSubmit URL e s)) as) TimerFires)) =
           defaultValue (email s) \<and>
         value' (cover (step URL (foldl (step URL) (snd (onSubmit URL e s)) as) TimerFires)) =
           defaultValue (cover s) \<and>
         value' (portfolio (step URL (foldl (step URL) (snd (onSubmit URL e s)) as) TimerFires)) =
           defaultValue (portfolio s) \<and>
         resume (step URL (foldl (step URL) (snd (onSubmit URL e s)) as) TimerFires) = [] \<and>
         hidden (filePreview (step URL (foldl (step URL) (snd (onSubmit URL e s)) as) TimerFires))"
proof -
  let ?s1 = "snd (onSubmit URL e s)"
  let ?s2 = "foldl (step URL) ?s1 as"
  have ok: "name_ok (fullName s) \<and> email_ok (email s) \<and> cover_ok (cover s) \<and>
            portfolio_ok URL (portfolio s) \<and> resume_ok (resume s)"
    using assms(1) by (simp add: frames)
  have t1: "timers ?s1 = [(800, SubmitDone)]"
    and b1: "submitBtn ?s1 = (submitBtn s)\<lparr>disabled := True, label := js ''Checking...''\<rparr>"
    and d1: "defaultValue (fullName ?s1) = defaultValue (fullName s)"
      "defaultValue (email ?s1) = defaultValue (email s)"
      "defaultValue (cover ?s1) = defaultValue (cover s)"
      "defaultValue (portfolio ?s1) = defaultValue (portfolio s)"
    using ok assms(3) by (simp_all add: onSubmit_eq)
  have t2: "timers ?s2 = [(800, SubmitDone)]"
    and b2: "submitBtn ?s2 = (submitBtn s)\<lparr>disabled := True, label := js ''Checking...''\<rparr>"
    using run_quiet [OF assms(2), of URL ?s1] t1 b1 by simp_all
  have d2: "defaultValue (fullName ?s2) = defaultValue (fullName s)"
      "defaultValue (email ?s2) = defaultValue (email s)"
      "defaultValue (cover ?s2) = defaultValue (cover s)"
      "defaultValue (portfolio ?s2) = defaultValue (portfolio s)"
    using run_quiet_defaults [OF assms(2), of URL ?s1] d1 by simp_all
  have s3: "step URL ?s2 TimerFires = run_callback SubmitDone (?s2\<lparr>timers := []\<rparr>)"
    using t2 by simp
  show ?thesis
    unfolding s3 run_callback_effect using t1 b1 t2 b2 d2 by simp
qed

theorem onSubmit_valid_witness:
  "timers (snd (onSubmit sample_URL \<lparr>defaultPrevented = False\<rparr> filled_page)) =
     [(800, SubmitDone)] \<and>
   submitBtn (foldl (step sample_URL)
                (snd (onSubmit sample_URL \<lparr>defaultPrevented = False\<rparr> filled_page))
                [Edit Cover (js ''Dear team''), ClickClear, BeforeUnload]) =
     (submitBtn filled_page)\<lparr>disabled := True, label := js ''Checking...''\<rparr> \<and>
   submitBtn (step sample_URL
                (foldl (step sample_URL)
                   (snd (onSubmit sample_URL \<lparr>defaultPrevented = False\<rparr> filled_page))
                   [Edit Cover (js ''Dear team''), ClickClear, BeforeUnload])
                TimerFires) =
     (submitBtn filled_page)\<lparr>disabled := False, label := js ''Submit application''\<rparr> \<and>
   status_text (formStatus (step sample_URL
                (foldl (step sample_URL)
                   (snd (onSubmit sample_URL \<lparr>defaultPrevented = False\<rparr> filled_page))
                   [Edit Cover (js ''Dear team''), ClickClear, BeforeUnload])
                TimerFires)) = msg_success \<and>
   resume (step sample_URL
                (foldl (step sample_URL)
                   (snd (onSubmit sample_URL \<lparr>defaultPrevented = False\<rparr> filled_page))
                   [Edit Cover (js ''Dear team''), ClickClear, BeforeUnload])
                TimerFires) = [] \<and>
   hidden (filePreview (step sample_URL
                (foldl (step sample_URL)
                   (snd (onSubmit sample_URL \<lparr>defaultPrevented = False\<rparr> filled_page))
                   [Edit Cover (js ''Dear team''), ClickClear, BeforeUnload])
                TimerFires))"
proof -
  have n: "fst (validateName filled_page)"
    by (simp add: validateName_def filled_page_def typed_def trim_def js_def space_defs)
  have m: "fst (validateEmail filled_page)"
    by (simp add: validateEmail_def filled_page_def typed_def trim_def js_def space_defs re_defs)
  have c: "fst (validateCover filled_page)"
    by (simp add: validateCover_def filled_page_def typed_def trim_def js_def space_defs)
  have p: "fst (validatePortfolio sample_URL filled_page)"
    by (simp add: validatePortfolio_def filled_page_def typed_def trim_def js_def space_defs
        sample_URL_def isAlpha_def isSchemeChar_def lower_cu_def)
  have r: "fst (validateResume filled_page)"
    by (simp add: validateResume_def filled_page_def MAX_FILE_BYTES_def ALLOWED_MIME_def Let_def)
  have h1: "fst (validateName filled_page) \<and> fst (validateEmail filled_page) \<and>
            fst (validateCover filled_page) \<and> fst (validatePortfolio sample_URL filled_page) \<and>
            fst (validateResume filled_page)"
    using n m c p r by blast
  have h2: "\<forall>a\<in>set [Edit Cover (js ''Dear team''), ClickClear, BeforeUnload].
              a \<noteq> Submit \<and> a \<noteq> TimerFires"
    by simp
  have h3: "timers filled_page = []"
    by (simp add: filled_page_def blank_page_def)
  show ?thesis
    using onSubmit_valid [OF h1 h2 h3, of "\<lparr>defaultPrevented = False\<rparr>"]
    by blast
qed

section \<open>The navigation guard\<close>

text \<open>
  C9. The dirty flag is false after the script has loaded; after any sequence of
  events on the page it is true exactly when one of them was an \<open>input\<close> event in the
  form. Once true it stays true under every event, in particular under a submit, the
  delayed completion and the form reset. The \<open>beforeunload\<close> listener prevents the
  default, which asks for the confirmation prompt, exactly when the flag is true, and
  leaves the event untouched when it is false.
\<close>

theorem dirty_flag:
  "\<not> isDirty (load page) \<and>
   (isDirty (foldl (step URL) (load page) as) \<longleftrightarrow> (\<exists>a\<in>set as. is_input a)) \<and>
   (isDirty s \<longrightarrow>
      isDirty (step URL s a) \<and> isDirty (foldl (step URL) s as) \<and>
      isDirty (snd (onSubmit URL e s)) \<and> isDirty (run_callback SubmitDone s) \<and>
      isDirty (form_reset s)) \<and>
   (defaultPrevented (onBeforeUnload \<lparr>defaultPrevented = False\<rparr> s) \<longleftrightarrow> isDirty s) \<and>
   (\<not> isDirty s \<longrightarrow> onBeforeUnload ev s = ev)"
proof -
  have "\<not> isDirty (load page)"
    by (simp add: load_def)
  moreover have "isDirty (foldl (step URL) (load page) as) \<longleftrightarrow> (\<exists>a\<in>set as. is_input a)"
    by (simp add: run_isDirty load_def)
  moreover have "isDirty (step URL s a) \<and> isDirty (foldl (step URL) s as) \<and>
      isDirty (snd (onSubmit URL e s)) \<and> isDirty (run_callback SubmitDone s) \<and>
      isDirty (form_reset s)" if "isDirty s"
    using that by (simp add: step_isDirty run_isDirty onSubmit_eq run_callback_isDirty form_reset_def)
  moreover have "defaultPrevented (onBeforeUnload \<lparr>defaultPrevented = False\<rparr> s) \<longleftrightarrow> isDirty s"
    by (simp add: onBeforeUnload_def)
  moreover have "onBeforeUnload ev s = ev" if "\<not> isDirty s"
    using that by (simp add: onBeforeUnload_def)
  ultimately show ?thesis by blast
qed

theorem dirty_flag_witness:
  "isDirty (foldl (step sample_URL) (load blank_page)
             [ClickClear, Edit Email (js ''a''), Submit, TimerFires]) \<and>
   isDirty (step sample_URL (blank_page\<lparr>isDirty := True\<rparr>) Submit) \<and>
   isDirty (run_callback SubmitDone (blank_page\<lparr>isDirty := True\<rparr>)) \<and>
   isDirty (form_reset (blank_page\<lparr>isDirty := True\<rparr>)) \<and>
   defaultPrevented (onBeforeUnload \<lparr>defaultPrevented = False\<rparr> (blank_page\<lparr>isDirty := True\<rparr>)) \<and>
   onBeforeUnload \<lparr>defaultPrevented = False\<rparr> blank_page = \<lparr>defaultPrevented = False\<rparr>"
proof -
  have hA: "\<exists>a\<in>set [ClickClear, Edit Email (js ''a''), Submit, TimerFires]. is_input a"
    by simp
  have hB: "isDirty (blank_page\<lparr>isDirty := True\<rparr>)"
    by simp
  have hC: "\<not> isDirty blank_page"
    by (simp add: blank_page_def)
  show ?thesis
    using dirty_flag [where page = blank_page and URL = sample_URL
          and as = "[ClickClear, Edit Email (js ''a''), Submit, TimerFires]"
          and s = "blank_page\<lparr>isDirty := True\<rparr>" and a = Submit
          and e = "\<lparr>defaultPrevented = False\<rparr>" and ev = "\<lparr>defaultPrevented = False\<rparr>"]
      dirty_flag [where page = blank_page and URL = sample_URL
          and as = "[ClickClear, Edit Email (js ''a''), Submit, TimerFires]"
          and s = blank_page and a = Submit
          and e = "\<lparr>defaultPrevented = False\<rparr>" and ev = "\<lparr>defaultPrevented = False\<rparr>"]
      hA hB hC
    by blast
qed

end
